theory Spec2Isabelle
  imports Complex_Main "HOL-Library.AList"
begin

section \<open>JavaScript values\<close>

text \<open>
  The normalizer of \<^verbatim>\<open>src/lib/regrid.ts\<close> takes \<^verbatim>\<open>rawProperty: any\<close>: a decoded
  JSON document of arbitrary shape. Values are therefore modelled untyped. A number
  is NaN, an infinity or a finite value; the two zeros are not distinguished (both
  are falsy). An object is an association list in which the first binding of a key
  is the object's property.
\<close>

datatype jsnum = NaN | PosInf | NegInf | Fin rat

datatype jsval =
    JUndefined
  | JNull
  | JBool bool
  | JNum jsnum
  | JStr string
  | JArr "jsval list"
  | JObj "(string \<times> jsval) list"

datatype js_error = Error string | TypeError string | ZodError

fun message :: "js_error \<Rightarrow> string" where
  "message (Error m) = m"
| "message (TypeError m) = m"
| "message ZodError = ''ZodError''"

text \<open>ToBoolean, and the operator \<^verbatim>\<open>a || b\<close>, which returns \<^verbatim>\<open>a\<close> itself when it is truthy.\<close>

fun truthy :: "jsval \<Rightarrow> bool" where
  "truthy JUndefined = False"
| "truthy JNull = False"
| "truthy (JBool b) = b"
| "truthy (JNum n) = (n \<noteq> NaN \<and> n \<noteq> Fin 0)"
| "truthy (JStr s) = (s \<noteq> [])"
| "truthy (JArr xs) = True"
| "truthy (JObj kvs) = True"

definition jsor :: "jsval \<Rightarrow> jsval \<Rightarrow> jsval" where
  "jsor a b = (if truthy a then a else b)"

definition nullish :: "jsval \<Rightarrow> bool" where
  "nullish v = (v = JUndefined \<or> v = JNull)"

text \<open>Decimal rendering of an array index, the key under which an element is stored.\<close>

fun show_nat :: "nat \<Rightarrow> string" where
  "show_nat n =
     (if n < 10 then [''0123456789'' ! n]
      else show_nat (n div 10) @ [''0123456789'' ! (n mod 10)])"

declare show_nat.simps [simp del]

text \<open>
  The own enumerable properties of a value: what \<^verbatim>\<open>{...v}\<close> copies and what
  \<^verbatim>\<open>v.key\<close> finds. Strings and arrays own their indices. None of the keys read by
  the code below is a property inherited from a built-in prototype, so a key that is
  not an own property reads as \<^verbatim>\<open>undefined\<close>.
\<close>

fun own_props :: "jsval \<Rightarrow> (string \<times> jsval) list" where
  "own_props (JObj kvs) = kvs"
| "own_props (JArr xs) = zip (map show_nat [0..<length xs]) xs"
| "own_props (JStr s) = zip (map show_nat [0..<length s]) (map (\<lambda>c. JStr [c]) s)"
| "own_props v = []"

text \<open>
  \<^verbatim>\<open>v.key\<close> and \<^verbatim>\<open>v?.key\<close>. Reading a property of \<^verbatim>\<open>null\<close> or \<^verbatim>\<open>undefined\<close> throws a
  TypeError; \<open>get\<close> is the read once the receiver is known not to be nullish, and the
  functions below test \<open>nullish\<close> first wherever the source reads without \<^verbatim>\<open>?.\<close> a
  value that can be nullish.
\<close>

definition get :: "jsval \<Rightarrow> string \<Rightarrow> jsval" where
  "get v k = (case map_of (own_props v) k of None \<Rightarrow> JUndefined | Some x \<Rightarrow> x)"

definition opt :: "jsval \<Rightarrow> string \<Rightarrow> jsval" where
  "opt v k = (if nullish v then JUndefined else get v k)"

text \<open>An object literal ending in a spread, \<^verbatim>\<open>{k1: v1, ..., ...v}\<close>: the spread is
  evaluated last, so its keys replace the ones written before it.\<close>

definition spread :: "(string \<times> jsval) list \<Rightarrow> jsval \<Rightarrow> (string \<times> jsval) list" where
  "spread literal v = AList.merge literal (own_props v)"

text \<open>
  The conversions between strings and numbers depend on the binary64 number format
  (rounding, shortest round-trip digits): \<^verbatim>\<open>parseFloat\<close> and \<^verbatim>\<open>parseInt\<close> applied to a
  string, the rendering of a number (Number::toString) and the reading of a whole
  string as a number (StringToNumber). Each of them returns for every argument. They
  are parameters of the model: every theorem below holds whatever they return.
\<close>

record js_env =
  js_parseFloat :: "string \<Rightarrow> jsnum"
  js_parseInt :: "string \<Rightarrow> jsnum"
  js_numberToString :: "jsnum \<Rightarrow> string"
  js_stringToNumber :: "string \<Rightarrow> jsnum"

text \<open>
  ToString, which \<^verbatim>\<open>String(v)\<close>, \<^verbatim>\<open>`${v}`\<close>, \<^verbatim>\<open>parseFloat(v)\<close> and \<^verbatim>\<open>parseInt(v)\<close> apply to
  their argument. A primitive always converts. An object is converted by its
  \<^verbatim>\<open>toString\<close> method: a decoded JSON object inherits the one of \<^verbatim>\<open>Object.prototype\<close>,
  unless it has a property \<^verbatim>\<open>toString\<close> of its own, which is never a function; then
  no method yields a primitive (\<^verbatim>\<open>valueOf\<close> returns the object) and the conversion
  throws a TypeError. An array is converted by \<^verbatim>\<open>join\<close>: its elements, converted in
  turn and separated by commas, \<^verbatim>\<open>null\<close> and \<^verbatim>\<open>undefined\<close> as the empty string.
\<close>

fun ToString :: "'a js_env_scheme \<Rightarrow> jsval \<Rightarrow> js_error + string"
  and join :: "'a js_env_scheme \<Rightarrow> jsval list \<Rightarrow> js_error + string" where
  "ToString e JUndefined = Inr ''undefined''"
| "ToString e JNull = Inr ''null''"
| "ToString e (JBool b) = Inr (if b then ''true'' else ''false'')"
| "ToString e (JNum n) = Inr (js_numberToString e n)"
| "ToString e (JStr s) = Inr s"
| "ToString e (JArr xs) = join e xs"
| "ToString e (JObj kvs) =
     (if map_of kvs ''toString'' = None then Inr ''[object Object]''
      else Inl (TypeError ''Cannot convert object to primitive value''))"
| "join e [] = Inr []"
| "join e (x # xs) =
     (case (if nullish x then Inr [] else ToString e x) of
        Inl err \<Rightarrow> Inl err
      | Inr s \<Rightarrow>
          (case join e xs of
             Inl err \<Rightarrow> Inl err
           | Inr t \<Rightarrow> Inr (s @ (if xs = [] then [] else CHR '','' # t))))"

text \<open>\<^verbatim>\<open>parseFloat(v)\<close> and \<^verbatim>\<open>parseInt(v)\<close>: the argument is converted to a string, which
  is then read.\<close>

definition parseFloat :: "'a js_env_scheme \<Rightarrow> jsval \<Rightarrow> js_error + jsnum" where
  "parseFloat e v = (case ToString e v of Inl err \<Rightarrow> Inl err | Inr s \<Rightarrow> Inr (js_parseFloat e s))"

definition parseInt :: "'a js_env_scheme \<Rightarrow> jsval \<Rightarrow> js_error + jsnum" where
  "parseInt e v = (case ToString e v of Inl err \<Rightarrow> Inl err | Inr s \<Rightarrow> Inr (js_parseInt e s))"

text \<open>ToNumber, which \<^verbatim>\<open>>\<close> applies to an operand that is not a number. An object or an
  array is first converted to a primitive, which for decoded JSON is its string.\<close>

definition ToNumber :: "'a js_env_scheme \<Rightarrow> jsval \<Rightarrow> js_error + jsnum" where
  "ToNumber e v =
     (case v of
        JUndefined \<Rightarrow> Inr NaN
      | JNull \<Rightarrow> Inr (Fin 0)
      | JBool b \<Rightarrow> Inr (Fin (if b then 1 else 0))
      | JNum n \<Rightarrow> Inr n
      | _ \<Rightarrow> (case ToString e v of Inl err \<Rightarrow> Inl err | Inr s \<Rightarrow> Inr (js_stringToNumber e s)))"

text \<open>The method call \<^verbatim>\<open>value.toString()\<close> on a value that is not \<^verbatim>\<open>null\<close> or
  \<^verbatim>\<open>undefined\<close>: the conversion above, except that an object whose own \<^verbatim>\<open>toString\<close> is
  not a function cannot be called at all.\<close>

definition toString_method :: "'a js_env_scheme \<Rightarrow> jsval \<Rightarrow> js_error + string" where
  "toString_method e v =
     (case v of
        JObj kvs \<Rightarrow>
          if map_of kvs ''toString'' = None then Inr ''[object Object]''
          else Inl (TypeError ''value.toString is not a function'')
      | _ \<Rightarrow> ToString e v)"

text \<open>
  An object literal \<^verbatim>\<open>{k1: e1, ..., kn: en}\<close> whose entries can throw: the entries are
  evaluated in the order written and the first error is the error of the literal.
  \<^verbatim>\<open>e || d\<close> for an entry \<^verbatim>\<open>e\<close> that computes a number.
\<close>

fun literal :: "(string \<times> (js_error + 'a)) list \<Rightarrow> js_error + (string \<times> 'a) list" where
  "literal [] = Inr []"
| "literal ((k, Inl err) # entries) = Inl err"
| "literal ((k, Inr v) # entries) =
     (case literal entries of Inl err \<Rightarrow> Inl err | Inr kvs \<Rightarrow> Inr ((k, v) # kvs))"

definition object :: "(string \<times> (js_error + jsval)) list \<Rightarrow> js_error + jsval" where
  "object entries = (case literal entries of Inl err \<Rightarrow> Inl err | Inr kvs \<Rightarrow> Inr (JObj kvs))"

definition or_else :: "js_error + jsnum \<Rightarrow> jsval \<Rightarrow> js_error + jsval" where
  "or_else r d = (case r of Inl err \<Rightarrow> Inl err | Inr n \<Rightarrow> Inr (jsor (JNum n) d))"

section \<open>Field Normalizer: \<^verbatim>\<open>RegridService.normalizeProperty\<close>\<close>

text \<open>
  Two revisions of \<^verbatim>\<open>lib/regrid.ts\<close> are in the repository. They differ only in the
  canonical keys of the attribute bag: the later one reads the assessed value from
  \<^verbatim>\<open>parval\<close> and adds the improvement value, land value, last sale price and
  \<^verbatim>\<open>qoz_status\<close>, which the refresh and create routes consume.
\<close>

datatype revision = Lib | Enhanced

text \<open>\<^verbatim>\<open>rawProperty.properties?.fields || rawProperty.fields || rawProperty.properties || rawProperty\<close>\<close>

definition fields_of :: "jsval \<Rightarrow> jsval" where
  "fields_of rawProperty =
     jsor (opt (get rawProperty ''properties'') ''fields'')
       (jsor (get rawProperty ''fields'')
         (jsor (get rawProperty ''properties'') rawProperty))"

definition or_empty :: "jsval \<Rightarrow> string \<Rightarrow> jsval" where
  "or_empty flds k = jsor (get flds k) (JStr [])"

text \<open>The keys written in the \<^verbatim>\<open>properties: { ... }\<close> literal before \<^verbatim>\<open>...fields\<close>.\<close>

fun canonical_properties ::
  "'a js_env_scheme \<Rightarrow> revision \<Rightarrow> jsval \<Rightarrow> (string \<times> (js_error + jsval)) list" where
  "canonical_properties e Lib flds =
     [(''owner'', Inr (or_empty flds ''owner'')),
      (''lot_size_sqft'', or_else (parseInt e (get flds ''ll_gissqft'')) JUndefined),
      (''lot_acres'', or_else (parseFloat e (get flds ''ll_gisacre'')) JUndefined),
      (''building_sqft'', or_else (parseInt e (get flds ''building_sqft'')) JUndefined),
      (''year_built'', or_else (parseInt e (get flds ''yearbuilt'')) JUndefined),
      (''zoning'', Inr (or_empty flds ''zoning'')),
      (''zoning_description'', Inr (or_empty flds ''zoning_description'')),
      (''property_type'', Inr (or_empty flds ''property_type'')),
      (''use_code'', Inr (or_empty flds ''usecode'')),
      (''use_description'', Inr (or_empty flds ''usedesc'')),
      (''assessed_value'', or_else (parseFloat e (get flds ''assessed_value'')) JUndefined),
      (''sale_date'', Inr (or_empty flds ''saledate'')),
      (''sale_price'', or_else (parseFloat e (get flds ''saleprice'')) JUndefined),
      (''subdivision'', Inr (or_empty flds ''subdivision'')),
      (''county'', Inr (or_empty flds ''county'')),
      (''qualified_opportunity_zone'', Inr (or_empty flds ''qoz''))]"
| "canonical_properties e Enhanced flds =
     [(''owner'', Inr (or_empty flds ''owner'')),
      (''lot_size_sqft'', or_else (parseInt e (get flds ''ll_gissqft'')) JUndefined),
      (''lot_acres'', or_else (parseFloat e (get flds ''ll_gisacre'')) JUndefined),
      (''building_sqft'', or_else (parseInt e (get flds ''building_sqft'')) JUndefined),
      (''year_built'', or_else (parseInt e (get flds ''yearbuilt'')) JUndefined),
      (''zoning'', Inr (or_empty flds ''zoning'')),
      (''zoning_description'', Inr (or_empty flds ''zoning_description'')),
      (''property_type'', Inr (or_empty flds ''property_type'')),
      (''use_code'', Inr (or_empty flds ''usecode'')),
      (''use_description'', Inr (or_empty flds ''usedesc'')),
      (''assessed_value'', or_else (parseFloat e (get flds ''parval'')) JUndefined),
      (''improvement_value'', or_else (parseFloat e (get flds ''improvval'')) JUndefined),
      (''land_value'', or_else (parseFloat e (get flds ''landval'')) JUndefined),
      (''last_sale_price'', or_else (parseFloat e (get flds ''saleprice'')) JUndefined),
      (''sale_date'', Inr (or_empty flds ''saledate'')),
      (''county'', Inr (or_empty flds ''county'')),
      (''qoz_status'', Inr (or_empty flds ''qoz'')),
      (''subdivision'', Inr (or_empty flds ''subdivision'')),
      (''qualified_opportunity_zone'', Inr (or_empty flds ''qoz''))]"

text \<open>
  \<^verbatim>\<open>normalizeProperty\<close>. Reading \<^verbatim>\<open>rawProperty.properties\<close> throws when the argument is
  \<^verbatim>\<open>null\<close> or \<^verbatim>\<open>undefined\<close>; \<^verbatim>\<open>String\<close>, \<^verbatim>\<open>parseFloat\<close> and \<^verbatim>\<open>parseInt\<close> throw when their
  argument does not convert to a string.
\<close>

definition normalizeProperty :: "'a js_env_scheme \<Rightarrow> revision \<Rightarrow> jsval \<Rightarrow> js_error + jsval" where
  "normalizeProperty e rv rawProperty =
     (if nullish rawProperty
      then Inl (TypeError ''Cannot read properties of null or undefined'')
      else
        let flds = fields_of rawProperty;
            geometry = get rawProperty ''geometry''
        in if nullish flds
           then Inl (TypeError ''Cannot read properties of null or undefined'')
           else object
             [(''id'',
                 (case ToString e
                         (jsor (get rawProperty ''id'') (jsor (get flds ''id'') (JStr []))) of
                    Inl err \<Rightarrow> Inl err
                  | Inr s \<Rightarrow> Inr (JStr s))),
              (''apn'', Inr (jsor (get flds ''parcelnumb'') (or_empty flds ''apn''))),
              (''address'', object
                 [(''line1'', Inr (or_empty flds ''address'')),
                  (''line2'', Inr (JStr [])),
                  (''city'', Inr (jsor (get flds ''scity'') (or_empty flds ''city''))),
                  (''state'', Inr (jsor (get flds ''state2'') (or_empty flds ''state''))),
                  (''zip'', Inr (jsor (get flds ''szip5'') (or_empty flds ''zip'')))]),
              (''geometry'', Inr (jsor geometry
                 (JObj [(''type'', JStr ''Polygon''), (''coordinates'', JArr [])]))),
              (''centroid'', object
                 [(''lat'', or_else (parseFloat e (get flds ''lat'')) (JNum (Fin 0))),
                  (''lng'', or_else (parseFloat e (get flds ''lon'')) (JNum (Fin 0)))]),
              (''properties'',
                 (case literal (canonical_properties e rv flds) of
                    Inl err \<Rightarrow> Inl err
                  | Inr kvs \<Rightarrow> Inr (JObj (spread kvs flds))))])"

text \<open>Reading a path of keys of a result, each step with \<^verbatim>\<open>?.\<close>.\<close>

fun path :: "jsval \<Rightarrow> string list \<Rightarrow> jsval" where
  "path v [] = v"
| "path v (k # ks) = path (opt v k) ks"

text \<open>The attribute-bag keys whose literal value is \<^verbatim>\<open>parseInt(...) || undefined\<close> or
  \<^verbatim>\<open>parseFloat(...) || undefined\<close>.\<close>

fun numeric_keys :: "revision \<Rightarrow> string list" where
  "numeric_keys Lib =
     [''lot_size_sqft'', ''lot_acres'', ''building_sqft'', ''year_built'', ''assessed_value'',
      ''sale_price'']"
| "numeric_keys Enhanced =
     [''lot_size_sqft'', ''lot_acres'', ''building_sqft'', ''year_built'', ''assessed_value'',
      ''improvement_value'', ''land_value'', ''last_sale_price'']"

text \<open>The value of a canonical key as the literal computes it, before the spread
  (\<^verbatim>\<open>undefined\<close> for a key that the literal does not write or whose entry throws).\<close>

definition canonical_value :: "'a js_env_scheme \<Rightarrow> revision \<Rightarrow> jsval \<Rightarrow> string \<Rightarrow> jsval" where
  "canonical_value e rv flds k =
     (case map_of (canonical_properties e rv flds) k of
        Some (Inr x) \<Rightarrow> x
      | _ \<Rightarrow> JUndefined)"

text \<open>Predicates on result fields: a number other than NaN; a finite number; a non-zero
  number other than NaN, or \<^verbatim>\<open>undefined\<close>; a finite number, or \<^verbatim>\<open>undefined\<close>/\<^verbatim>\<open>null\<close>.\<close>

fun number_not_nan :: "jsval \<Rightarrow> bool" where
  "number_not_nan (JNum n) = (n \<noteq> NaN)"
| "number_not_nan v = False"

fun number_or_undefined :: "jsval \<Rightarrow> bool" where
  "number_or_undefined JUndefined = True"
| "number_or_undefined (JNum n) = (n \<noteq> NaN \<and> n \<noteq> Fin 0)"
| "number_or_undefined v = False"

fun finite_or_absent :: "jsval \<Rightarrow> bool" where
  "finite_or_absent (JNum (Fin q)) = True"
| "finite_or_absent JUndefined = True"
| "finite_or_absent JNull = True"
| "finite_or_absent v = False"

text \<open>
  The values that convert to a string: every primitive, an object without a property
  \<^verbatim>\<open>toString\<close> of its own, and an array whose elements other than \<^verbatim>\<open>null\<close> and
  \<^verbatim>\<open>undefined\<close> convert.
\<close>

fun stringable :: "jsval \<Rightarrow> bool" where
  "stringable (JObj kvs) = (map_of kvs ''toString'' = None)"
| "stringable (JArr xs) = list_all (\<lambda>x. nullish x \<or> stringable x) xs"
| "stringable v = True"

text \<open>The arguments that the literal of \<^verbatim>\<open>normalizeProperty\<close> hands to \<^verbatim>\<open>String\<close>,
  \<^verbatim>\<open>parseFloat\<close> and \<^verbatim>\<open>parseInt\<close>, in the order written.\<close>

fun numeric_sources :: "revision \<Rightarrow> string list" where
  "numeric_sources Lib =
     [''ll_gissqft'', ''ll_gisacre'', ''building_sqft'', ''yearbuilt'', ''assessed_value'',
      ''saleprice'']"
| "numeric_sources Enhanced =
     [''ll_gissqft'', ''ll_gisacre'', ''building_sqft'', ''yearbuilt'', ''parval'', ''improvval'',
      ''landval'', ''saleprice'']"

definition converted :: "revision \<Rightarrow> jsval \<Rightarrow> jsval list" where
  "converted rv rawProperty =
     jsor (get rawProperty ''id'') (jsor (get (fields_of rawProperty) ''id'') (JStr []))
     # map (get (fields_of rawProperty)) ([''lat'', ''lon''] @ numeric_sources rv)"




section \<open>Parcel Lookup Client: \<^verbatim>\<open>RegridService\<close>\<close>

text \<open>
  The network is a parameter: \<open>fetch\<close> answers a request (the endpoint and the query
  parameters appended to the URL) with a thrown error or a response, whose body either
  decodes as JSON or makes \<^verbatim>\<open>response.json()\<close> throw. \<open>apiKey\<close> is
  \<^verbatim>\<open>process.env.REGRID_API_KEY\<close>.
\<close>

record http_response =
  ok :: bool
  status :: nat
  text_body :: string
  json_body :: "js_error + jsval"

record env = js_env +
  apiKey :: "string option"
  fetch :: "string \<Rightarrow> (string \<times> string) list \<Rightarrow> js_error + http_response"
  now :: string

text \<open>\<^verbatim>\<open>Object.entries(params).forEach\<close>: a parameter that is not \<^verbatim>\<open>null\<close> or
  \<^verbatim>\<open>undefined\<close> is appended as \<^verbatim>\<open>value.toString()\<close>.\<close>

definition query_params ::
  "'a env_scheme \<Rightarrow> (string \<times> jsval) list \<Rightarrow> js_error + (string \<times> string) list" where
  "query_params e params =
     literal (map (\<lambda>(k, v). (k, toString_method e v)) (filter (\<lambda>(k, v). \<not> nullish v) params))"

definition opt_string :: "string option \<Rightarrow> jsval" where
  "opt_string x = (case x of None \<Rightarrow> JUndefined | Some s \<Rightarrow> JStr s)"

definition makeRequest :: "'a env_scheme \<Rightarrow> string \<Rightarrow> (string \<times> jsval) list \<Rightarrow> js_error + jsval" where
  "makeRequest e endpoint params =
     (if \<not> truthy (opt_string (apiKey e))
      then Inl (Error ''Regrid API key is not configured'')
      else
        (case query_params e params of
           Inl err \<Rightarrow> Inl err
         | Inr query \<Rightarrow>
             (case fetch e endpoint query of
                Inl err \<Rightarrow> Inl err
              | Inr response \<Rightarrow>
                  if \<not> ok response
                  then Inl (Error (''Regrid API Error ('' @ show_nat (status response) @ ''): ''
                                    @ text_body response))
                  else json_body response)))"

text \<open>\<^verbatim>\<open>features.length > 0\<close> for a value that is truthy or \<^verbatim>\<open>[]\<close>: an array or a string has
  its length; any other value has the \<^verbatim>\<open>length\<close> it owns, converted by ToNumber, which
  can throw.\<close>

definition greater_than_zero :: "jsnum \<Rightarrow> bool" where
  "greater_than_zero n = (case n of Fin q \<Rightarrow> 0 < q | PosInf \<Rightarrow> True | _ \<Rightarrow> False)"

definition length_positive :: "'a env_scheme \<Rightarrow> jsval \<Rightarrow> js_error + bool" where
  "length_positive e v =
     (case v of
        JArr xs \<Rightarrow> Inr (xs \<noteq> [])
      | JStr s \<Rightarrow> Inr (s \<noteq> [])
      | _ \<Rightarrow>
          (case ToNumber e (get v ''length'') of
             Inl err \<Rightarrow> Inl err
           | Inr n \<Rightarrow> Inr (greater_than_zero n)))"

text \<open>
  \<^verbatim>\<open>searchByAPN\<close>. The \<^verbatim>\<open>catch\<close> logs and rethrows, so an error of the request or of the
  normalizer is the error of the call. The later revision first tries a cached file
  for six test parcel numbers when \<^verbatim>\<open>NODE_ENV\<close> is \<^verbatim>\<open>development\<close>; that development
  path is not modelled. The \<^verbatim>\<open>state\<close> argument is only logged.
\<close>

definition searchByAPN :: "'a env_scheme \<Rightarrow> revision \<Rightarrow> string \<Rightarrow> jsval \<Rightarrow> js_error + jsval" where
  "searchByAPN e rv apn_arg state_arg =
     (case makeRequest e ''/parcels/apn''
             [(''parcelnumb'', JStr apn_arg), (''token'', opt_string (apiKey e))] of
        Inl err \<Rightarrow> Inl err
      | Inr data \<Rightarrow>
          let features = jsor (opt (opt data ''parcels'') ''features'') (JArr [])
          in (case length_positive e features of
                Inl err \<Rightarrow> Inl err
              | Inr positive \<Rightarrow>
                  if positive then normalizeProperty e rv (get features ''0'') else Inr JNull))"

text \<open>\<^verbatim>\<open>Promise.allSettled\<close> waits for every promise and never rejects: each outcome
  becomes a record with a status, and a value when fulfilled.\<close>

datatype 'a settled = Fulfilled 'a | Rejected js_error

definition allSettled :: "(js_error + 'a) list \<Rightarrow> 'a settled list" where
  "allSettled promises =
     map (\<lambda>p. case p of Inl err \<Rightarrow> Rejected err | Inr v \<Rightarrow> Fulfilled v) promises"

fun fulfilled_value :: "jsval settled \<Rightarrow> jsval" where
  "fulfilled_value (Fulfilled v) = v"
| "fulfilled_value (Rejected err) = JUndefined"

fun fulfilled_not_null :: "jsval settled \<Rightarrow> bool" where
  "fulfilled_not_null (Fulfilled v) = (v \<noteq> JNull)"
| "fulfilled_not_null (Rejected err) = False"

definition batchSearchByAPNs :: "'a env_scheme \<Rightarrow> revision \<Rightarrow> string list \<Rightarrow> jsval \<Rightarrow> jsval list" where
  "batchSearchByAPNs e rv apns state_arg =
     (let results = allSettled (map (\<lambda>apn_arg. searchByAPN e rv apn_arg state_arg) apns)
      in map fulfilled_value (filter fulfilled_not_null results))"

text \<open>The spec's reading of the batch lookup: the successful results that are not
  \<^verbatim>\<open>null\<close>, in the order of the requests; failed and not-found lookups are dropped.\<close>

fun successes :: "(js_error + jsval) list \<Rightarrow> jsval list" where
  "successes [] = []"
| "successes (Inl err # rs) = successes rs"
| "successes (Inr v # rs) = (if v = JNull then successes rs else v # successes rs)"

fun dropped :: "(js_error + jsval) list \<Rightarrow> nat" where
  "dropped [] = 0"
| "dropped (Inl err # rs) = Suc (dropped rs)"
| "dropped (Inr v # rs) = (if v = JNull then Suc (dropped rs) else dropped rs)"

section \<open>Persistence: the \<^verbatim>\<open>properties\<close> table\<close>

text \<open>
  A stored row, with the fields and types of \<^verbatim>\<open>export type Property\<close> (the fields of
  its earlier revision, which are the ones the routes read and write; \<^verbatim>\<open>id\<close> is
  \<open>p_id\<close>). JSON columns hold a value, \<^verbatim>\<open>null\<close> included.
\<close>

record Property =
  p_id :: string
  p_user_id :: string
  p_regrid_id :: "string option"
  p_apn :: "string option"
  p_address :: string
  p_city :: "string option"
  p_state :: "string option"
  p_zip_code :: "string option"
  p_geometry :: jsval
  p_lat :: "jsnum option"
  p_lng :: "jsnum option"
  p_year_built :: "jsnum option"
  p_owner :: "string option"
  p_last_sale_price :: "jsnum option"
  p_sale_date :: "string option"
  p_county :: "string option"
  p_qoz_status :: "string option"
  p_improvement_value :: "jsnum option"
  p_land_value :: "jsnum option"
  p_assessed_value :: "jsnum option"
  p_property_data :: jsval
  p_user_notes :: "string option"
  p_tags :: "string list option"
  p_insurance_provider :: "string option"
  p_maintenance_history :: "string option"
  p_created_at :: string
  p_updated_at :: string

text \<open>A typed column as the JavaScript value the route reads.\<close>

definition js_text :: "string option \<Rightarrow> jsval" where
  "js_text x = (case x of None \<Rightarrow> JNull | Some s \<Rightarrow> JStr s)"

definition js_number :: "jsnum option \<Rightarrow> jsval" where
  "js_number x = (case x of None \<Rightarrow> JNull | Some n \<Rightarrow> JNum n)"

definition js_tags :: "string list option \<Rightarrow> jsval" where
  "js_tags x = (case x of None \<Rightarrow> JNull | Some ts \<Rightarrow> JArr (map JStr ts))"

definition row_json :: "Property \<Rightarrow> jsval" where
  "row_json p = JObj
     [(''id'', JStr (p_id p)),
      (''user_id'', JStr (p_user_id p)),
      (''regrid_id'', js_text (p_regrid_id p)),
      (''apn'', js_text (p_apn p)),
      (''address'', JStr (p_address p)),
      (''city'', js_text (p_city p)),
      (''state'', js_text (p_state p)),
      (''zip_code'', js_text (p_zip_code p)),
      (''geometry'', p_geometry p),
      (''lat'', js_number (p_lat p)),
      (''lng'', js_number (p_lng p)),
      (''year_built'', js_number (p_year_built p)),
      (''owner'', js_text (p_owner p)),
      (''last_sale_price'', js_number (p_last_sale_price p)),
      (''sale_date'', js_text (p_sale_date p)),
      (''county'', js_text (p_county p)),
      (''qoz_status'', js_text (p_qoz_status p)),
      (''improvement_value'', js_number (p_improvement_value p)),
      (''land_value'', js_number (p_land_value p)),
      (''assessed_value'', js_number (p_assessed_value p)),
      (''property_data'', p_property_data p),
      (''user_notes'', js_text (p_user_notes p)),
      (''tags'', js_tags (p_tags p)),
      (''insurance_provider'', js_text (p_insurance_provider p)),
      (''maintenance_history'', js_text (p_maintenance_history p)),
      (''created_at'', JStr (p_created_at p)),
      (''updated_at'', JStr (p_updated_at p))]"

text \<open>
  The database. \<^verbatim>\<open>lib/db\<close> (\<^verbatim>\<open>DatabaseService\<close>) is not among the sources; the store and
  its four operations are modelled from the spec's persistence collaborator. What the
  database decides on its own is a component of the store: \<open>db_error\<close>, when set,
  makes every call throw; \<open>insert_check\<close> is the verdict of the constraints and the
  row-level security policy on an insert by a user.
\<close>

datatype db_outcome = Stored | Refused string | Empty

record store =
  table_rows :: "Property list"
  next_id :: nat
  db_error :: "string option"
  insert_check :: "string \<Rightarrow> (string \<times> jsval) list \<Rightarrow> db_outcome"

text \<open>The value a column takes from a payload. A text column stores a string, a numeric
  column a number, \<^verbatim>\<open>tags\<close> an array of strings; any other value is stored as
  \<^verbatim>\<open>null\<close> (the casts of the database are outside the model).\<close>

definition as_text :: "jsval \<Rightarrow> string option" where
  "as_text v = (case v of JStr s \<Rightarrow> Some s | _ \<Rightarrow> None)"

definition as_number :: "jsval \<Rightarrow> jsnum option" where
  "as_number v = (case v of JNum n \<Rightarrow> Some n | _ \<Rightarrow> None)"

fun string_of :: "jsval \<Rightarrow> string" where
  "string_of (JStr s) = s"
| "string_of v = []"

fun is_string :: "jsval \<Rightarrow> bool" where
  "is_string (JStr s) = True"
| "is_string v = False"

definition as_tags :: "jsval \<Rightarrow> string list option" where
  "as_tags v =
     (case v of
        JArr xs \<Rightarrow> if list_all is_string xs then Some (map string_of xs) else None
      | _ \<Rightarrow> None)"

definition payload_value :: "(string \<times> jsval) list \<Rightarrow> string \<Rightarrow> jsval" where
  "payload_value payload k = (case map_of payload k of None \<Rightarrow> JUndefined | Some v \<Rightarrow> v)"

text \<open>
  \<^verbatim>\<open>String.prototype.toLowerCase\<close> and \<^verbatim>\<open>includes\<close>. A character of the model is one of
  the first 256 code points; among them the letters \<^verbatim>\<open>A\<close> to \<^verbatim>\<open>Z\<close> and the capitals
  \<^verbatim>\<open>U+00C0\<close> to \<^verbatim>\<open>U+00DE\<close> (the multiplication sign \<^verbatim>\<open>U+00D7\<close> apart) have a lower case,
  32 code points higher.
\<close>

definition upper_case :: string where
  "upper_case =
     ''ABCDEFGHIJKLMNOPQRSTUVWXYZ''
     @ [CHR 0xC0, CHR 0xC1, CHR 0xC2, CHR 0xC3, CHR 0xC4, CHR 0xC5, CHR 0xC6, CHR 0xC7,
        CHR 0xC8, CHR 0xC9, CHR 0xCA, CHR 0xCB, CHR 0xCC, CHR 0xCD, CHR 0xCE, CHR 0xCF,
        CHR 0xD0, CHR 0xD1, CHR 0xD2, CHR 0xD3, CHR 0xD4, CHR 0xD5, CHR 0xD6,
        CHR 0xD8, CHR 0xD9, CHR 0xDA, CHR 0xDB, CHR 0xDC, CHR 0xDD, CHR 0xDE]"

definition lower_case :: string where
  "lower_case =
     ''abcdefghijklmnopqrstuvwxyz''
     @ [CHR 0xE0, CHR 0xE1, CHR 0xE2, CHR 0xE3, CHR 0xE4, CHR 0xE5, CHR 0xE6, CHR 0xE7,
        CHR 0xE8, CHR 0xE9, CHR 0xEA, CHR 0xEB, CHR 0xEC, CHR 0xED, CHR 0xEE, CHR 0xEF,
        CHR 0xF0, CHR 0xF1, CHR 0xF2, CHR 0xF3, CHR 0xF4, CHR 0xF5, CHR 0xF6,
        CHR 0xF8, CHR 0xF9, CHR 0xFA, CHR 0xFB, CHR 0xFC, CHR 0xFD, CHR 0xFE]"

definition lower_char :: "char \<Rightarrow> char" where
  "lower_char c = (case map_of (zip upper_case lower_case) c of None \<Rightarrow> c | Some l \<Rightarrow> l)"

definition toLowerCase :: "string \<Rightarrow> string" where
  "toLowerCase s = map lower_char s"

fun str_includes :: "string \<Rightarrow> string \<Rightarrow> bool" where
  "str_includes [] t = (t = [])"
| "str_includes (c # s) t = (take (length t) (c # s) = t \<or> str_includes s t)"

text \<open>Modelled from the spec: \<^verbatim>\<open>DatabaseService.getProperty\<close> is missing;
  \<^verbatim>\<open>get(id, ownerUserId) -> PropertyRecord | none\<close>, scoped by the owning user.\<close>

definition getProperty :: "store \<Rightarrow> string \<Rightarrow> string \<Rightarrow> js_error + Property option" where
  "getProperty db pid uid =
     (case db_error db of
        Some m \<Rightarrow> Inl (Error m)
      | None \<Rightarrow> Inr (find (\<lambda>p. p_id p = pid \<and> p_user_id p = uid) (table_rows db)))"

text \<open>Modelled from the spec: \<^verbatim>\<open>DatabaseService.getFilteredProperties\<close> is missing;
  \<^verbatim>\<open>listFiltered(ownerUserId, {search})\<close>, where \<^verbatim>\<open>search\<close> performs substring matching
  across the address, parcel-number and postal fields. The match ignores case, as the
  \<^verbatim>\<open>ILIKE\<close> of the schema's own search helper does. The \<^verbatim>\<open>city\<close>, \<^verbatim>\<open>state\<close> and
  \<^verbatim>\<open>tags\<close> filters are not used by the routes below.\<close>

definition text_matches :: "string \<Rightarrow> string option \<Rightarrow> bool" where
  "text_matches term col =
     (case col of None \<Rightarrow> False | Some s \<Rightarrow> str_includes (toLowerCase s) (toLowerCase term))"

definition search_matches :: "string \<Rightarrow> Property \<Rightarrow> bool" where
  "search_matches term p =
     (text_matches term (Some (p_address p)) \<or> text_matches term (p_apn p)
      \<or> text_matches term (p_zip_code p))"

definition getFilteredProperties :: "store \<Rightarrow> string \<Rightarrow> string \<Rightarrow> js_error + Property list" where
  "getFilteredProperties db uid search =
     (case db_error db of
        Some m \<Rightarrow> Inl (Error m)
      | None \<Rightarrow>
          Inr (filter (\<lambda>p. p_user_id p = uid \<and> search_matches search p) (table_rows db)))"

text \<open>Modelled from the spec: \<^verbatim>\<open>DatabaseService.createProperty\<close> is missing;
  \<^verbatim>\<open>create(PropertyRecord-without-id) -> PropertyRecord | none\<close>. The row gets a fresh
  id, the calling user as owner (the column default \<^verbatim>\<open>auth.uid()\<close>) and the current
  time; a refused insert throws, an insert the policy hides returns \<^verbatim>\<open>null\<close>.\<close>

definition new_row :: "string \<Rightarrow> string \<Rightarrow> string \<Rightarrow> (string \<times> jsval) list \<Rightarrow> Property" where
  "new_row pid uid time payload =
     \<lparr> p_id = pid,
       p_user_id = uid,
       p_regrid_id = as_text (payload_value payload ''regrid_id''),
       p_apn = as_text (payload_value payload ''apn''),
       p_address = string_of (payload_value payload ''address''),
       p_city = as_text (payload_value payload ''city''),
       p_state = as_text (payload_value payload ''state''),
       p_zip_code = as_text (payload_value payload ''zip_code''),
       p_geometry = jsor (payload_value payload ''geometry'') JNull,
       p_lat = as_number (payload_value payload ''lat''),
       p_lng = as_number (payload_value payload ''lng''),
       p_year_built = as_number (payload_value payload ''year_built''),
       p_owner = as_text (payload_value payload ''owner''),
       p_last_sale_price = as_number (payload_value payload ''last_sale_price''),
       p_sale_date = as_text (payload_value payload ''sale_date''),
       p_county = as_text (payload_value payload ''county''),
       p_qoz_status = as_text (payload_value payload ''qoz_status''),
       p_improvement_value = as_number (payload_value payload ''improvement_value''),
       p_land_value = as_number (payload_value payload ''land_value''),
       p_assessed_value = as_number (payload_value payload ''assessed_value''),
       p_property_data = jsor (payload_value payload ''property_data'') JNull,
       p_user_notes = as_text (payload_value payload ''user_notes''),
       p_tags = as_tags (payload_value payload ''tags''),
       p_insurance_provider = as_text (payload_value payload ''insurance_provider''),
       p_maintenance_history = as_text (payload_value payload ''maintenance_history''),
       p_created_at = time,
       p_updated_at = time \<rparr>"

definition createProperty ::
  "'a env_scheme \<Rightarrow> store \<Rightarrow> string \<Rightarrow> (string \<times> jsval) list \<Rightarrow> (js_error + Property option) \<times> store" where
  "createProperty e db uid payload =
     (case db_error db of
        Some m \<Rightarrow> (Inl (Error m), db)
      | None \<Rightarrow>
          (case insert_check db uid payload of
             Refused m \<Rightarrow> (Inl (Error m), db)
           | Empty \<Rightarrow> (Inr None, db)
           | Stored \<Rightarrow>
               let row = new_row (show_nat (next_id db)) uid (now e) payload
               in (Inr (Some row),
                   db\<lparr>table_rows := table_rows db @ [row], next_id := Suc (next_id db)\<rparr>)))"

text \<open>Modelled from the spec: \<^verbatim>\<open>DatabaseService.updateProperty\<close> is missing;
  \<^verbatim>\<open>update(id, ownerUserId, partial) -> PropertyRecord\<close>. The columns named in the
  payload are replaced in the row of that id and owner; without such a row the call
  throws.\<close>

definition set_text :: "(string \<times> jsval) list \<Rightarrow> string \<Rightarrow> string option \<Rightarrow> string option" where
  "set_text payload k old = (case map_of payload k of None \<Rightarrow> old | Some v \<Rightarrow> as_text v)"

definition set_number :: "(string \<times> jsval) list \<Rightarrow> string \<Rightarrow> jsnum option \<Rightarrow> jsnum option" where
  "set_number payload k old = (case map_of payload k of None \<Rightarrow> old | Some v \<Rightarrow> as_number v)"

definition set_json :: "(string \<times> jsval) list \<Rightarrow> string \<Rightarrow> jsval \<Rightarrow> jsval" where
  "set_json payload k old = (case map_of payload k of None \<Rightarrow> old | Some v \<Rightarrow> jsor v JNull)"

definition updated_row :: "(string \<times> jsval) list \<Rightarrow> Property \<Rightarrow> Property" where
  "updated_row payload p =
     p\<lparr> p_regrid_id := set_text payload ''regrid_id'' (p_regrid_id p),
        p_apn := set_text payload ''apn'' (p_apn p),
        p_address := (case map_of payload ''address'' of
                        None \<Rightarrow> p_address p | Some v \<Rightarrow> string_of v),
        p_city := set_text payload ''city'' (p_city p),
        p_state := set_text payload ''state'' (p_state p),
        p_zip_code := set_text payload ''zip_code'' (p_zip_code p),
        p_geometry := set_json payload ''geometry'' (p_geometry p),
        p_lat := set_number payload ''lat'' (p_lat p),
        p_lng := set_number payload ''lng'' (p_lng p),
        p_year_built := set_number payload ''year_built'' (p_year_built p),
        p_owner := set_text payload ''owner'' (p_owner p),
        p_last_sale_price := set_number payload ''last_sale_price'' (p_last_sale_price p),
        p_sale_date := set_text payload ''sale_date'' (p_sale_date p),
        p_county := set_text payload ''county'' (p_county p),
        p_qoz_status := set_text payload ''qoz_status'' (p_qoz_status p),
        p_improvement_value := set_number payload ''improvement_value'' (p_improvement_value p),
        p_land_value := set_number payload ''land_value'' (p_land_value p),
        p_assessed_value := set_number payload ''assessed_value'' (p_assessed_value p),
        p_property_data := set_json payload ''property_data'' (p_property_data p),
        p_user_notes := set_text payload ''user_notes'' (p_user_notes p),
        p_tags := (case map_of payload ''tags'' of None \<Rightarrow> p_tags p | Some v \<Rightarrow> as_tags v),
        p_insurance_provider := set_text payload ''insurance_provider'' (p_insurance_provider p),
        p_maintenance_history :=
          set_text payload ''maintenance_history'' (p_maintenance_history p),
        p_updated_at := (case map_of payload ''updated_at'' of
                           None \<Rightarrow> p_updated_at p | Some v \<Rightarrow> string_of v) \<rparr>"

definition updateProperty ::
  "store \<Rightarrow> string \<Rightarrow> string \<Rightarrow> (string \<times> jsval) list \<Rightarrow> (js_error + Property) \<times> store" where
  "updateProperty db pid uid payload =
     (case db_error db of
        Some m \<Rightarrow> (Inl (Error m), db)
      | None \<Rightarrow>
          (case find (\<lambda>p. p_id p = pid \<and> p_user_id p = uid) (table_rows db) of
             None \<Rightarrow> (Inl (Error ''Property not found''), db)
           | Some p \<Rightarrow>
               (Inr (updated_row payload p),
                db\<lparr>table_rows :=
                     map (\<lambda>q. if p_id q = pid \<and> p_user_id q = uid then updated_row payload q
                               else q) (table_rows db)\<rparr>)))"

section \<open>Routes\<close>

text \<open>A response is a status and a JSON body (\<^verbatim>\<open>NextResponse.json(body, {status})\<close>).\<close>

type_synonym response = "nat \<times> jsval"

definition error_json :: "string \<Rightarrow> jsval" where
  "error_json m = JObj [(''error'', JStr m)]"

subsection \<open>Duplicate Resolver: \<^verbatim>\<open>GET /api/user-properties/check-apn\<close>\<close>

text \<open>\<^verbatim>\<open>property.apn?.toLowerCase() === apn.toLowerCase()\<close>\<close>

definition apn_equal :: "string \<Rightarrow> Property \<Rightarrow> bool" where
  "apn_equal q property = (map_option toLowerCase (p_apn property) = Some (toLowerCase q))"

definition match_json :: "Property \<Rightarrow> jsval" where
  "match_json exactMatch = JObj
     [(''exists'', JBool True),
      (''property'', JObj
         [(''id'', JStr (p_id exactMatch)),
          (''address'', JStr (p_address exactMatch)),
          (''city'', js_text (p_city exactMatch)),
          (''state'', js_text (p_state exactMatch)),
          (''apn'', js_text (p_apn exactMatch)),
          (''created_at'', JStr (p_created_at exactMatch))])]"

definition check_apn_GET :: "store \<Rightarrow> string option \<Rightarrow> string option \<Rightarrow> response" where
  "check_apn_GET db userId apn_param =
     (if \<not> truthy (js_text userId) then (401, error_json ''Unauthorized'')
      else if \<not> truthy (js_text apn_param) then (400, error_json ''APN parameter is required'')
      else
        (case getFilteredProperties db (string_of (js_text userId))
                (string_of (js_text apn_param)) of
           Inl err \<Rightarrow> (500, error_json ''Failed to check APN'')
         | Inr existingProperties \<Rightarrow>
             (case find (apn_equal (string_of (js_text apn_param))) existingProperties of
                Some exactMatch \<Rightarrow> (200, match_json exactMatch)
              | None \<Rightarrow> (200, JObj [(''exists'', JBool False)]))))"

subsection \<open>Refresh: \<^verbatim>\<open>POST /api/user-properties/[id]/refresh\<close>\<close>

text \<open>\<^verbatim>\<open>cleanAPN\<close>: a falsy argument gives \<^verbatim>\<open>null\<close>; otherwise \<^verbatim>\<open>apn.replace(/-/g, '')\<close>, which
  throws when the argument is not a string.\<close>

definition cleanAPN :: "jsval \<Rightarrow> js_error + jsval" where
  "cleanAPN a =
     (if \<not> truthy a then Inr JNull
      else
        (case a of
           JStr s \<Rightarrow> Inr (JStr (filter (\<lambda>c. c \<noteq> CHR ''-'') s))
         | _ \<Rightarrow> Inl (TypeError ''apn.replace is not a function'')))"

text \<open>The object literal \<^verbatim>\<open>updatedPropertyData\<close>. Its second entry calls \<^verbatim>\<open>cleanAPN\<close>,
  so evaluating the literal can throw. \<^verbatim>\<open>regridData\<close> is not \<^verbatim>\<open>null\<close> here.\<close>

definition merged_fields ::
  "'a env_scheme \<Rightarrow> Property \<Rightarrow> jsval \<Rightarrow> jsval \<Rightarrow> (string \<times> jsval) list" where
  "merged_fields e existingProperty regridData cleaned =
     [(''regrid_id'', jsor (get regridData ''id'') (js_text (p_regrid_id existingProperty))),
      (''apn'', cleaned),
      (''address'', jsor (opt (get regridData ''address'') ''line1'')
                      (JStr (p_address existingProperty))),
      (''city'', jsor (opt (get regridData ''address'') ''city'')
                   (js_text (p_city existingProperty))),
      (''state'', jsor (opt (get regridData ''address'') ''state'')
                    (js_text (p_state existingProperty))),
      (''zip_code'', jsor (opt (get regridData ''address'') ''zip'')
                       (js_text (p_zip_code existingProperty))),
      (''geometry'', jsor (get regridData ''geometry'') (p_geometry existingProperty)),
      (''lat'', jsor (opt (get regridData ''centroid'') ''lat'')
                  (js_number (p_lat existingProperty))),
      (''lng'', jsor (opt (get regridData ''centroid'') ''lng'')
                  (js_number (p_lng existingProperty))),
      (''year_built'', jsor (opt (get regridData ''properties'') ''year_built'')
                         (js_number (p_year_built existingProperty))),
      (''owner'', jsor (opt (get regridData ''properties'') ''owner'')
                    (js_text (p_owner existingProperty))),
      (''last_sale_price'', jsor (opt (get regridData ''properties'') ''last_sale_price'')
                              (js_number (p_last_sale_price existingProperty))),
      (''sale_date'', jsor (opt (get regridData ''properties'') ''sale_date'')
                        (js_text (p_sale_date existingProperty))),
      (''county'', jsor (opt (get regridData ''properties'') ''county'')
                     (js_text (p_county existingProperty))),
      (''qoz_status'', jsor (opt (get regridData ''properties'') ''qoz_status'')
                         (js_text (p_qoz_status existingProperty))),
      (''improvement_value'', jsor (opt (get regridData ''properties'') ''improvement_value'')
                                (js_number (p_improvement_value existingProperty))),
      (''land_value'', jsor (opt (get regridData ''properties'') ''land_value'')
                         (js_number (p_land_value existingProperty))),
      (''assessed_value'', jsor (opt (get regridData ''properties'') ''assessed_value'')
                             (js_number (p_assessed_value existingProperty))),
      (''property_data'', jsor regridData (p_property_data existingProperty)),
      (''user_notes'', js_text (p_user_notes existingProperty)),
      (''tags'', js_tags (p_tags existingProperty)),
      (''insurance_provider'', js_text (p_insurance_provider existingProperty)),
      (''maintenance_history'', js_text (p_maintenance_history existingProperty)),
      (''updated_at'', JStr (now e))]"

definition updatedPropertyData ::
  "'a env_scheme \<Rightarrow> Property \<Rightarrow> jsval \<Rightarrow> js_error + (string \<times> jsval) list" where
  "updatedPropertyData e existingProperty regridData =
     (case cleanAPN (jsor (get regridData ''apn'') (js_text (p_apn existingProperty))) of
        Inl err \<Rightarrow> Inl err
      | Inr cleaned \<Rightarrow> Inr (merged_fields e existingProperty regridData cleaned))"

text \<open>The outer \<^verbatim>\<open>catch\<close> of the route: the status is chosen from the error message.\<close>

definition refresh_catch :: "js_error \<Rightarrow> response" where
  "refresh_catch err =
     (if str_includes (message err) ''not found'' then 404
      else if str_includes (message err) ''Unauthorized'' then 401
      else 500,
      error_json (message err))"

definition refresh_POST ::
  "'a env_scheme \<Rightarrow> revision \<Rightarrow> store \<Rightarrow> string option \<Rightarrow> string \<Rightarrow> response \<times> store" where
  "refresh_POST e rv db userId pid =
     (if \<not> truthy (js_text userId) then ((401, error_json ''Unauthorized''), db)
      else if pid = [] then ((400, error_json ''Property ID is required''), db)
      else
        (case getProperty db pid (string_of (js_text userId)) of
           Inl err \<Rightarrow> (refresh_catch err, db)
         | Inr None \<Rightarrow> ((404, error_json ''Property not found''), db)
         | Inr (Some existingProperty) \<Rightarrow>
             if \<not> truthy (js_text (p_apn existingProperty))
             then ((400, error_json ''Cannot refresh property: No APN available''), db)
             else
               (case searchByAPN e rv (string_of (js_text (p_apn existingProperty)))
                       (jsor (js_text (p_state existingProperty)) JUndefined) of
                  Inl err \<Rightarrow>
                    ((503, error_json ''Failed to fetch updated property data from Regrid API''),
                     db)
                | Inr regridData \<Rightarrow>
                    if \<not> truthy regridData
                    then ((404, error_json ''No updated data available for this property''), db)
                    else
                      (case updatedPropertyData e existingProperty regridData of
                         Inl err \<Rightarrow> (refresh_catch err, db)
                       | Inr payload \<Rightarrow>
                           (case updateProperty db pid (string_of (js_text userId)) payload of
                              (Inl err, db') \<Rightarrow> (refresh_catch err, db')
                            | (Inr updatedProperty, db') \<Rightarrow>
                                ((200, JObj
                                    [(''property'', row_json updatedProperty),
                                     (''message'', JStr ''Property data refreshed successfully'')]),
                                 db'))))))"

subsection \<open>Create: \<^verbatim>\<open>POST /api/user-properties\<close>\<close>

text \<open>The zod schemas. \<^verbatim>\<open>parse\<close> throws a ZodError on an input that does not fit and
  returns the fitting input otherwise, without unknown keys, with \<^verbatim>\<open>regrid_id\<close>
  transformed by \<^verbatim>\<open>val => val ? String(val) : undefined\<close>.\<close>

fun is_object :: "jsval \<Rightarrow> bool" where
  "is_object (JObj kvs) = True"
| "is_object v = False"

definition optional_string :: "jsval \<Rightarrow> bool" where
  "optional_string v = (v = JUndefined \<or> is_string v)"

definition string_or_number :: "jsval \<Rightarrow> bool" where
  "string_or_number v = (case v of JStr s \<Rightarrow> True | JNum n \<Rightarrow> n \<noteq> NaN | _ \<Rightarrow> False)"

definition string_array :: "jsval \<Rightarrow> bool" where
  "string_array v = (case v of JArr xs \<Rightarrow> list_all is_string xs | _ \<Rightarrow> False)"

definition regrid_id_transform :: "'a env_scheme \<Rightarrow> jsval \<Rightarrow> js_error + jsval" where
  "regrid_id_transform e val =
     (if truthy val
      then (case ToString e val of Inl err \<Rightarrow> Inl err | Inr s \<Rightarrow> Inr (JStr s))
      else Inr JUndefined)"

definition createPropertySchema_parse :: "'a env_scheme \<Rightarrow> jsval \<Rightarrow> js_error + jsval" where
  "createPropertySchema_parse e input =
     (if is_object input
         \<and> (get input ''regrid_id'' = JUndefined \<or> string_or_number (get input ''regrid_id''))
         \<and> optional_string (get input ''apn'')
         \<and> is_string (get input ''address'') \<and> string_of (get input ''address'') \<noteq> []
         \<and> optional_string (get input ''city'')
         \<and> optional_string (get input ''state'')
         \<and> optional_string (get input ''zip_code'')
         \<and> optional_string (get input ''user_notes'')
         \<and> (get input ''tags'' = JUndefined \<or> string_array (get input ''tags''))
         \<and> optional_string (get input ''insurance_provider'')
         \<and> optional_string (get input ''maintenance_history'')
      then
        (case regrid_id_transform e (get input ''regrid_id'') of
           Inl err \<Rightarrow> Inl err
         | Inr regrid_id \<Rightarrow>
             Inr (JObj (filter (\<lambda>(k, v). v \<noteq> JUndefined)
               [(''regrid_id'', regrid_id),
                (''apn'', get input ''apn''),
                (''address'', get input ''address''),
                (''city'', get input ''city''),
                (''state'', get input ''state''),
                (''zip_code'', get input ''zip_code''),
                (''user_notes'', get input ''user_notes''),
                (''tags'', get input ''tags''),
                (''insurance_provider'', get input ''insurance_provider''),
                (''maintenance_history'', get input ''maintenance_history'')])))
      else Inl ZodError)"

fun parse_each :: "'a env_scheme \<Rightarrow> jsval list \<Rightarrow> js_error + jsval list" where
  "parse_each e [] = Inr []"
| "parse_each e (x # xs) =
     (case createPropertySchema_parse e x of
        Inl err \<Rightarrow> Inl err
      | Inr v \<Rightarrow> (case parse_each e xs of Inl err \<Rightarrow> Inl err | Inr vs \<Rightarrow> Inr (v # vs)))"

definition bulkCreateSchema_parse :: "'a env_scheme \<Rightarrow> jsval \<Rightarrow> js_error + (jsval list \<times> jsval)" where
  "bulkCreateSchema_parse e body =
     (if is_object body
         \<and> get body ''source'' \<in> set [JUndefined, JStr ''csv'', JStr ''manual'', JStr ''api'']
      then
        (case get body ''properties'' of
           JArr xs \<Rightarrow>
             (case parse_each e xs of
                Inl err \<Rightarrow> Inl err
              | Inr vs \<Rightarrow> Inr (vs, get body ''source''))
         | _ \<Rightarrow> Inl ZodError)
      else Inl ZodError)"

text \<open>\<^verbatim>\<open>searchByAddress\<close> and \<^verbatim>\<open>getPropertyById\<close> of the lookup client, which the create
  paths call when the input has no parcel number.\<close>

definition searchResult :: "jsval \<Rightarrow> jsval" where
  "searchResult result = JObj
     [(''id'', get result ''id''),
      (''apn'', jsor (opt (get result ''fields'') ''apn'') (JStr [])),
      (''address'', jsor (opt (opt (get result ''fields'') ''address'') ''line1'') (JStr [])),
      (''city'', jsor (opt (opt (get result ''fields'') ''address'') ''city'') (JStr [])),
      (''state'', jsor (opt (opt (get result ''fields'') ''address'') ''state'') (JStr [])),
      (''zip'', jsor (opt (opt (get result ''fields'') ''address'') ''zip'') (JStr [])),
      (''score'', jsor (get result ''score'') (JNum (Fin 0)))]"

definition searchByAddress ::
  "'a env_scheme \<Rightarrow> string \<Rightarrow> jsval \<Rightarrow> jsval \<Rightarrow> nat \<Rightarrow> js_error + jsval list" where
  "searchByAddress e address_arg city_arg state_arg limit =
     (case makeRequest e ''/search''
             ([(''query'', JStr address_arg), (''limit'', JNum (Fin (of_nat (min limit 25))))]
              @ (if truthy city_arg then [(''city'', city_arg)] else [])
              @ (if truthy state_arg then [(''state'', state_arg)] else [])) of
        Inl err \<Rightarrow> Inl err
      | Inr data \<Rightarrow>
          if nullish data then Inl (TypeError ''Cannot read properties of null or undefined'')
          else
            (case jsor (get data ''results'') (JArr []) of
               JArr results \<Rightarrow>
                 if list_ex nullish results
                 then Inl (TypeError ''Cannot read properties of null or undefined'')
                 else Inr (map searchResult results)
             | _ \<Rightarrow> Inl (TypeError ''(data.results || []).map is not a function'')))"

definition getPropertyById :: "'a env_scheme \<Rightarrow> revision \<Rightarrow> jsval \<Rightarrow> js_error + jsval" where
  "getPropertyById e rv id_arg =
     (case ToString e id_arg of
        Inl err \<Rightarrow> Inl err
      | Inr id_text \<Rightarrow>
          (case makeRequest e (''/parcels/'' @ id_text) [(''token'', opt_string (apiKey e))] of
             Inl err \<Rightarrow> Inl err
           | Inr data \<Rightarrow>
               if nullish data
               then Inl (TypeError ''Cannot read properties of null or undefined'')
               else
                 let features = opt (get data ''parcels'') ''features''
                 in if \<not> truthy features then Inr JNull
                    else
                      (case length_positive e features of
                         Inl err \<Rightarrow> Inl err
                       | Inr positive \<Rightarrow>
                           if positive then normalizeProperty e rv (get features ''0'')
                           else Inr JNull)))"

text \<open>The object literal \<^verbatim>\<open>propertyData\<close>, the same in \<^verbatim>\<open>handleSingleCreate\<close> and in
  \<^verbatim>\<open>createSinglePropertyFromInput\<close>; \<^verbatim>\<open>regridData\<close> is a result or \<^verbatim>\<open>null\<close>.\<close>

definition propertyData :: "jsval \<Rightarrow> jsval \<Rightarrow> (string \<times> jsval) list" where
  "propertyData validatedData regridData =
     [(''regrid_id'', jsor (get validatedData ''regrid_id'') JNull),
      (''apn'', jsor (opt regridData ''apn'') (jsor (get validatedData ''apn'') JNull)),
      (''address'', jsor (opt (opt regridData ''address'') ''line1'')
                      (get validatedData ''address'')),
      (''city'', jsor (opt (opt regridData ''address'') ''city'')
                   (jsor (get validatedData ''city'') JNull)),
      (''state'', jsor (opt (opt regridData ''address'') ''state'')
                    (jsor (get validatedData ''state'') JNull)),
      (''zip_code'', jsor (opt (opt regridData ''address'') ''zip'')
                       (jsor (get validatedData ''zip_code'') JNull)),
      (''geometry'', jsor (opt regridData ''geometry'') JNull),
      (''lat'', jsor (opt (opt regridData ''centroid'') ''lat'') JNull),
      (''lng'', jsor (opt (opt regridData ''centroid'') ''lng'') JNull),
      (''year_built'', jsor (opt (opt regridData ''properties'') ''year_built'') JNull),
      (''owner'', jsor (opt (opt regridData ''properties'') ''owner'') JNull),
      (''last_sale_price'', jsor (opt (opt regridData ''properties'') ''last_sale_price'') JNull),
      (''sale_date'', jsor (opt (opt regridData ''properties'') ''sale_date'') JNull),
      (''county'', jsor (opt (opt regridData ''properties'') ''county'') JNull),
      (''qoz_status'', jsor (opt (opt regridData ''properties'') ''qoz_status'') JNull),
      (''improvement_value'',
         jsor (opt (opt regridData ''properties'') ''improvement_value'') JNull),
      (''land_value'', jsor (opt (opt regridData ''properties'') ''land_value'') JNull),
      (''assessed_value'', jsor (opt (opt regridData ''properties'') ''assessed_value'') JNull),
      (''property_data'', jsor regridData JNull),
      (''user_notes'', jsor (get validatedData ''user_notes'') JNull),
      (''tags'', jsor (get validatedData ''tags'') JNull),
      (''insurance_provider'', jsor (get validatedData ''insurance_provider'') JNull),
      (''maintenance_history'', jsor (get validatedData ''maintenance_history'') JNull)]"

text \<open>The provider lookup of \<^verbatim>\<open>handleSingleCreate\<close>; an error propagates.\<close>

definition lookup_regrid :: "'a env_scheme \<Rightarrow> revision \<Rightarrow> jsval \<Rightarrow> js_error + jsval" where
  "lookup_regrid e rv validatedData =
     (if truthy (get validatedData ''apn'')
      then searchByAPN e rv (string_of (get validatedData ''apn'')) (get validatedData ''state'')
      else if truthy (get validatedData ''address'')
      then
        (case searchByAddress e (string_of (get validatedData ''address''))
                (get validatedData ''city'') (get validatedData ''state'') 1 of
           Inl err \<Rightarrow> Inl err
         | Inr searchResults \<Rightarrow>
             (case searchResults of
                [] \<Rightarrow> Inr JNull
              | r # rs \<Rightarrow> getPropertyById e rv (get r ''id'')))
      else Inr JNull)"

text \<open>The server-side duplicate check: the search with the merged parcel number (the
  search term is its text), then \<^verbatim>\<open>find\<close> with
  \<^verbatim>\<open>property.apn?.toLowerCase() === propertyData.apn?.toLowerCase()\<close>, which throws on the
  first candidate when the merged parcel number is not a string.\<close>

definition duplicate_check :: "'a env_scheme \<Rightarrow> store \<Rightarrow> string \<Rightarrow> jsval \<Rightarrow> js_error + unit" where
  "duplicate_check e db userId merged_apn =
     (case ToString e merged_apn of
        Inl err \<Rightarrow> Inl err
      | Inr search \<Rightarrow>
          (case getFilteredProperties db userId search of
             Inl err \<Rightarrow> Inl err
           | Inr existingProperties \<Rightarrow>
               if existingProperties = [] then Inr ()
               else if \<not> is_string merged_apn
               then Inl (TypeError ''propertyData.apn?.toLowerCase is not a function'')
               else
                 (case find (apn_equal (string_of merged_apn)) existingProperties of
                    Some exactMatch \<Rightarrow>
                      Inl (Error ''A property with this APN already exists in your portfolio'')
                  | None \<Rightarrow> Inr ())))"

definition handleSingleCreate ::
  "'a env_scheme \<Rightarrow> revision \<Rightarrow> store \<Rightarrow> string \<Rightarrow> jsval \<Rightarrow> (js_error + response) \<times> store" where
  "handleSingleCreate e rv db userId body =
     (case createPropertySchema_parse e body of
        Inl err \<Rightarrow> (Inl err, db)
      | Inr validatedData \<Rightarrow>
          (case lookup_regrid e rv validatedData of
             Inl err \<Rightarrow> (Inl err, db)
           | Inr regridData \<Rightarrow>
               let data = propertyData validatedData regridData
               in (case (if truthy (payload_value data ''apn'')
                         then duplicate_check e db userId (payload_value data ''apn'')
                         else Inr ()) of
                     Inl dbError \<Rightarrow> (Inl (Error (''Database error: '' @ message dbError)), db)
                   | Inr u \<Rightarrow>
                       (case createProperty e db userId data of
                          (Inl dbError, db') \<Rightarrow>
                            (Inl (Error (''Database error: '' @ message dbError)), db')
                        | (Inr None, db') \<Rightarrow>
                            (Inl (Error (''Database error: ''
                                          @ ''Cannot read properties of null (reading id)'')), db')
                        | (Inr (Some property), db') \<Rightarrow>
                            (Inr (200, JObj [(''property'', row_json property)]), db')))))"

subsection \<open>Bulk create\<close>

text \<open>\<^verbatim>\<open>createSinglePropertyFromInput\<close>: a failed provider lookup is logged and the row
  is created without provider data.\<close>

definition createSinglePropertyFromInput ::
  "'a env_scheme \<Rightarrow> revision \<Rightarrow> store \<Rightarrow> string \<Rightarrow> jsval \<Rightarrow> (js_error + Property option) \<times> store" where
  "createSinglePropertyFromInput e rv db userId input =
     (case createPropertySchema_parse e input of
        Inl err \<Rightarrow> (Inl err, db)
      | Inr validatedInput \<Rightarrow>
          let regridData =
                (case (if truthy (get validatedInput ''apn'')
                       then searchByAPN e rv (string_of (get validatedInput ''apn''))
                              (get validatedInput ''state'')
                       else
                         (case searchByAddress e (string_of (get validatedInput ''address''))
                                 (get validatedInput ''city'') (get validatedInput ''state'') 1 of
                            Inl err \<Rightarrow> Inl err
                          | Inr searchResults \<Rightarrow>
                              (case searchResults of
                                 [] \<Rightarrow> Inr JNull
                               | r # rs \<Rightarrow> getPropertyById e rv (get r ''id'')))) of
                   Inl err \<Rightarrow> JNull
                 | Inr found \<Rightarrow> found)
          in createProperty e db userId (propertyData validatedInput regridData))"

text \<open>The loop of \<^verbatim>\<open>handleBulkCreate\<close> over \<^verbatim>\<open>properties.entries()\<close>, with the index, the
  lists \<^verbatim>\<open>results\<close> and \<^verbatim>\<open>errors\<close> built so far, and the store.\<close>

definition error_entry :: "nat \<Rightarrow> jsval \<Rightarrow> js_error \<Rightarrow> jsval" where
  "error_entry index propertyInput err = JObj
     [(''index'', JNum (Fin (of_nat index))),
      (''input'', propertyInput),
      (''error'', JStr (message err))]"

definition created_json :: "Property option \<Rightarrow> jsval" where
  "created_json property = (case property of None \<Rightarrow> JNull | Some p \<Rightarrow> row_json p)"

fun bulk_loop ::
  "'a env_scheme \<Rightarrow> revision \<Rightarrow> string \<Rightarrow> nat \<Rightarrow> jsval list \<Rightarrow> jsval list \<Rightarrow> jsval list \<Rightarrow> store
     \<Rightarrow> jsval list \<times> jsval list \<times> store" where
  "bulk_loop e rv userId index [] results errors db = (results, errors, db)"
| "bulk_loop e rv userId index (propertyInput # rest) results errors db =
     (case createSinglePropertyFromInput e rv db userId propertyInput of
        (Inr property, db') \<Rightarrow>
          bulk_loop e rv userId (Suc index) rest (results @ [created_json property]) errors db'
      | (Inl err, db') \<Rightarrow>
          bulk_loop e rv userId (Suc index) rest results
            (errors @ [error_entry index propertyInput err]) db')"

definition bulk_json :: "jsval list \<Rightarrow> jsval list \<Rightarrow> nat \<Rightarrow> jsval \<Rightarrow> jsval" where
  "bulk_json results errors n_total source = JObj
     [(''created'', JArr results),
      (''errors'', JArr errors),
      (''summary'', JObj
         [(''total'', JNum (Fin (of_nat n_total))),
          (''successful'', JNum (Fin (of_nat (length results)))),
          (''failed'', JNum (Fin (of_nat (length errors)))),
          (''source'', source)])]"

definition handleBulkCreate ::
  "'a env_scheme \<Rightarrow> revision \<Rightarrow> store \<Rightarrow> string \<Rightarrow> jsval \<Rightarrow> (js_error + response) \<times> store" where
  "handleBulkCreate e rv db userId body =
     (case bulkCreateSchema_parse e body of
        Inl err \<Rightarrow> (Inl err, db)
      | Inr (properties, source) \<Rightarrow>
          (case bulk_loop e rv userId 0 properties [] [] db of
             (results, errors, db') \<Rightarrow>
               (Inr (200, bulk_json results errors (length properties) source), db')))"

section \<open>A model of the number conversions\<close>

text \<open>
  For evaluating the code on concrete inputs: the four conversions between strings and
  numbers. \<open>str_parseFloat\<close> and \<open>str_parseInt\<close> follow the StrDecimalLiteral grammar
  (leading white space, an optional sign, \<^verbatim>\<open>Infinity\<close>, digits with an optional
  fraction and exponent, a \<^verbatim>\<open>0x\<close> prefix for \<^verbatim>\<open>parseInt\<close>; the longest valid prefix is
  read). A magnitude of at least \<open>2\<^sup>1\<^sup>0\<^sup>2\<^sup>4 - 2\<^sup>9\<^sup>7\<^sup>0\<close> becomes an infinity and one of at
  most \<open>2\<^sup>-\<^sup>1\<^sup>0\<^sup>7\<^sup>5\<close> becomes zero, as in binary64; other finite values are kept exact
  instead of being rounded to 53 bits.
\<close>

definition is_digit :: "char \<Rightarrow> bool" where
  "is_digit c = (c \<in> set ''0123456789'')"

definition is_space :: "char \<Rightarrow> bool" where
  "is_space c =
     (c \<in> set [CHR 0x09, CHR 0x0A, CHR 0x0B, CHR 0x0C, CHR 0x0D, CHR 0x20, CHR 0xA0])"

definition digit_val :: "char \<Rightarrow> nat" where
  "digit_val c = of_char c - 48"

definition dec_nat :: "string \<Rightarrow> nat" where
  "dec_nat ds = foldl (\<lambda>a c. 10 * a + digit_val c) 0 ds"

definition is_hex :: "char \<Rightarrow> bool" where
  "is_hex c = (c \<in> set ''0123456789abcdefABCDEF'')"

definition hex_val :: "char \<Rightarrow> nat" where
  "hex_val c =
     (if is_digit c then of_char c - 48
      else if c \<in> set ''abcdef'' then of_char c - 87
      else of_char c - 55)"

definition hex_nat :: "string \<Rightarrow> nat" where
  "hex_nat ds = foldl (\<lambda>a c. 16 * a + hex_val c) 0 ds"

definition to_double :: "rat \<Rightarrow> jsnum" where
  "to_double q =
     (if 2 ^ 1024 - 2 ^ 970 \<le> \<bar>q\<bar> then (if 0 < q then PosInf else NegInf)
      else if \<bar>q\<bar> * 2 ^ 1075 \<le> 1 then Fin 0
      else Fin q)"

fun negate :: "jsnum \<Rightarrow> jsnum" where
  "negate NaN = NaN"
| "negate PosInf = NegInf"
| "negate NegInf = PosInf"
| "negate (Fin q) = Fin (- q)"

definition signed :: "(string \<Rightarrow> jsnum) \<Rightarrow> string \<Rightarrow> jsnum" where
  "signed f s =
     (case s of
        [] \<Rightarrow> f s
      | c # r \<Rightarrow> if c = CHR ''-'' then negate (f r) else if c = CHR ''+'' then f r else f s)"

definition exponent_split :: "string \<Rightarrow> int \<times> string" where
  "exponent_split s =
     (case s of
        [] \<Rightarrow> (0, s)
      | c # r \<Rightarrow>
          if c = CHR ''e'' \<or> c = CHR ''E'' then
            (let neg = (r \<noteq> [] \<and> hd r = CHR ''-'');
                 r' = (if r \<noteq> [] \<and> (hd r = CHR ''-'' \<or> hd r = CHR ''+'') then tl r else r);
                 ds = takeWhile is_digit r'
             in if ds = [] then (0, s)
                else (if neg then - int (dec_nat ds) else int (dec_nat ds),
                      dropWhile is_digit r'))
          else (0, s))"

definition scale10 :: "rat \<Rightarrow> int \<Rightarrow> rat" where
  "scale10 q k = (if 0 \<le> k then q * 10 ^ nat k else q / 10 ^ nat (- k))"

text \<open>The value of the longest prefix that is an unsigned StrDecimalLiteral, and the
  characters after it.\<close>

definition decimal_prefix :: "string \<Rightarrow> jsnum \<times> string" where
  "decimal_prefix s =
     (if take 8 s = ''Infinity'' then (PosInf, drop 8 s)
      else
        let ip = takeWhile is_digit s;
            r1 = dropWhile is_digit s;
            dot = (r1 \<noteq> [] \<and> hd r1 = CHR ''.'');
            fp = (if dot then takeWhile is_digit (tl r1) else []);
            r2 = (if dot then dropWhile is_digit (tl r1) else r1)
        in if ip = [] \<and> fp = [] then (NaN, s)
           else (to_double
                   (scale10 (of_nat (dec_nat (ip @ fp)))
                      (fst (exponent_split r2) - int (length fp))),
                 snd (exponent_split r2)))"

definition str_decimal :: "string \<Rightarrow> jsnum" where
  "str_decimal s = fst (decimal_prefix s)"

definition str_parseFloat :: "string \<Rightarrow> jsnum" where
  "str_parseFloat s = signed str_decimal (dropWhile is_space s)"

definition str_integer :: "string \<Rightarrow> jsnum" where
  "str_integer s =
     (if take 2 s = ''0x'' \<or> take 2 s = ''0X'' then
        (let ds = takeWhile is_hex (drop 2 s)
         in if ds = [] then NaN else to_double (of_nat (hex_nat ds)))
      else
        (let ds = takeWhile is_digit s
         in if ds = [] then NaN else to_double (of_nat (dec_nat ds))))"

definition str_parseInt :: "string \<Rightarrow> jsnum" where
  "str_parseInt s = signed str_integer (dropWhile is_space s)"

text \<open>
  Number::toString. A finite number other than zero is written with its significant
  digits \<open>ds\<close> and the exponent \<open>n\<close> for which its magnitude is \<open>0.ds \<times> 10\<^sup>n\<close>: without
  an exponent when \<open>-6 < n \<le> 21\<close>, as \<^verbatim>\<open>d.ddde+x\<close> otherwise. The digits are those of the
  value rounded to 17 significant places, which are the digits JavaScript prints for
  every number of at most 15 significant decimal digits; for a number with more, it
  prints the shortest digit string that reads back as the same binary64 value.
\<close>

definition decimal_exponent :: "rat \<Rightarrow> int" where
  "decimal_exponent q =
     (if 1 \<le> q then int (length (show_nat (nat \<lfloor>q\<rfloor>)))
      else 1 - int (length (show_nat (nat (\<lceil>1 / q\<rceil> - 1)))))"

definition rounded17 :: "rat \<Rightarrow> nat" where
  "rounded17 q = nat \<lfloor>scale10 q (17 - decimal_exponent q) + 1 / 2\<rfloor>"

definition significant_digits :: "rat \<Rightarrow> string" where
  "significant_digits q = rev (dropWhile (\<lambda>c. c = CHR ''0'') (rev (show_nat (rounded17 q))))"

definition layout :: "string \<Rightarrow> int \<Rightarrow> string" where
  "layout ds n =
     (if int (length ds) \<le> n \<and> n \<le> 21 then ds @ replicate (nat n - length ds) CHR ''0''
      else if 0 < n \<and> n \<le> 21 then take (nat n) ds @ ''.'' @ drop (nat n) ds
      else if - 6 < n \<and> n \<le> 0 then ''0.'' @ replicate (nat (- n)) CHR ''0'' @ ds
      else
        (if length ds = 1 then ds else take 1 ds @ ''.'' @ drop 1 ds)
        @ ''e'' @ (if n - 1 < 0 then ''-'' else ''+'') @ show_nat (nat \<bar>n - 1\<bar>))"

definition positive_toString :: "rat \<Rightarrow> string" where
  "positive_toString q =
     layout (significant_digits q)
       (if rounded17 q = 10 ^ 17 then decimal_exponent q + 1 else decimal_exponent q)"

fun number_toString :: "jsnum \<Rightarrow> string" where
  "number_toString NaN = ''NaN''"
| "number_toString PosInf = ''Infinity''"
| "number_toString NegInf = ''-Infinity''"
| "number_toString (Fin q) =
     (if q = 0 then ''0''
      else if q < 0 then ''-'' @ positive_toString (- q)
      else positive_toString q)"

text \<open>StringToNumber: the whole text, trimmed, must be a numeric literal (decimal, or
  hexadecimal after \<^verbatim>\<open>0x\<close>); the empty string is 0. Binary and octal literals are not
  modelled.\<close>

definition str_number :: "string \<Rightarrow> jsnum" where
  "str_number s =
     (let t = dropWhile is_space (rev (dropWhile is_space (rev s)))
      in if t = [] then Fin 0
         else if take 2 t = ''0x'' \<or> take 2 t = ''0X'' then
           (if drop 2 t \<noteq> [] \<and> list_all is_hex (drop 2 t)
            then to_double (of_nat (hex_nat (drop 2 t))) else NaN)
         else if t \<noteq> [] \<and> (hd t = CHR ''-'' \<or> hd t = CHR ''+'') then
           (if snd (decimal_prefix (tl t)) = []
            then (if hd t = CHR ''-'' then negate (fst (decimal_prefix (tl t)))
                  else fst (decimal_prefix (tl t)))
            else NaN)
         else if snd (decimal_prefix t) = [] then fst (decimal_prefix t) else NaN)"

text \<open>The environment of the examples: these conversions, a configured API key, and a
  network on which every request fails.\<close>

definition ecma :: env where
  "ecma =
     \<lparr> js_parseFloat = str_parseFloat, js_parseInt = str_parseInt,
       js_numberToString = number_toString, js_stringToNumber = str_number,
       apiKey = Some ''key'',
       fetch = (\<lambda>endpoint query. Inl (Error ''fetch failed'')),
       now = ''2025-01-01T00:00:00.000Z'' \<rparr>"

subsection \<open>The refresh merge, as the spec words it\<close>






subsection \<open>Duplicates, as the spec words them\<close>

text \<open>The user already owns a record whose parcel number equals the given one, ignoring
  case.\<close>

definition owned_match :: "store \<Rightarrow> string \<Rightarrow> string \<Rightarrow> bool" where
  "owned_match db uid a =
     list_ex (\<lambda>p. p_user_id p = uid \<and> map_option toLowerCase (p_apn p) = Some (toLowerCase a))
       (table_rows db)"

subsection \<open>The bulk create, as the spec words it\<close>

text \<open>The outcome of each input, each attempted in turn on the store its predecessor
  left; the created rows among them, and the error entries with their indices.\<close>

fun item_outcomes ::
  "'a env_scheme \<Rightarrow> revision \<Rightarrow> string \<Rightarrow> jsval list \<Rightarrow> store \<Rightarrow> (js_error + Property option) list" where
  "item_outcomes e rv userId [] db = []"
| "item_outcomes e rv userId (x # xs) db =
     (case createSinglePropertyFromInput e rv db userId x of
        (r, db') \<Rightarrow> r # item_outcomes e rv userId xs db')"

fun created_of :: "(js_error + Property option) list \<Rightarrow> jsval list" where
  "created_of [] = []"
| "created_of (Inr None # os) = JNull # created_of os"
| "created_of (Inr (Some row) # os) = row_json row # created_of os"
| "created_of (Inl err # os) = created_of os"

fun errors_of :: "nat \<Rightarrow> jsval list \<Rightarrow> (js_error + Property option) list \<Rightarrow> jsval list" where
  "errors_of index (x # xs) (Inl err # os) =
     JObj [(''index'', JNum (Fin (of_nat index))), (''input'', x), (''error'', JStr (message err))]
     # errors_of (Suc index) xs os"
| "errors_of index (x # xs) (Inr property # os) = errors_of (Suc index) xs os"
| "errors_of index xs os = []"

text \<open>The inputs as the schema returns them, one for each element of the array.\<close>

fun parsed_inputs :: "'a env_scheme \<Rightarrow> jsval list \<Rightarrow> jsval list" where
  "parsed_inputs e [] = []"
| "parsed_inputs e (x # xs) =
     (case createPropertySchema_parse e x of
        Inl err \<Rightarrow> parsed_inputs e xs
      | Inr v \<Rightarrow> v # parsed_inputs e xs)"

section \<open>Example data\<close>

definition blank_row :: Property where
  "blank_row =
     \<lparr> p_id = ''0'', p_user_id = ''u1'', p_regrid_id = None, p_apn = None,
       p_address = ''1 First St'', p_city = None, p_state = None, p_zip_code = None,
       p_geometry = JNull, p_lat = None, p_lng = None, p_year_built = None, p_owner = None,
       p_last_sale_price = None, p_sale_date = None, p_county = None, p_qoz_status = None,
       p_improvement_value = None, p_land_value = None, p_assessed_value = None,
       p_property_data = JNull, p_user_notes = None, p_tags = None,
       p_insurance_provider = None, p_maintenance_history = None,
       p_created_at = ''2024-05-01T00:00:00.000Z'', p_updated_at = ''2024-05-01T00:00:00.000Z'' \<rparr>"

definition alice_row :: Property where
  "alice_row =
     blank_row\<lparr> p_id := ''1'', p_apn := Some ''050-183-176'', p_address := ''123 Main St'',
       p_geometry := JObj [(''type'', JStr ''Polygon''),
                           (''coordinates'', JArr [JArr [JArr [JNum (Fin 1), JNum (Fin 2)]]])],
       p_owner := Some ''Alice'', p_user_notes := Some ''call the broker'' \<rparr>"

definition elm_row :: Property where
  "elm_row = blank_row\<lparr> p_id := ''2'', p_apn := Some ''AB-12'', p_address := ''9 Elm St'' \<rparr>"

definition oak_row :: Property where
  "oak_row = blank_row\<lparr> p_id := ''3'', p_address := ''050183176 Oak Ave'' \<rparr>"

definition example_store :: store where
  "example_store =
     \<lparr> table_rows = [alice_row, elm_row, oak_row], next_id = 4, db_error = None,
       insert_check = (\<lambda>uid payload. Stored) \<rparr>"

definition empty_store :: store where
  "empty_store =
     \<lparr> table_rows = [], next_id = 1, db_error = None,
       insert_check = (\<lambda>uid payload.
         if payload_value payload ''address'' = JStr ''Property 666'' then Refused ''check violation''
         else Stored) \<rparr>"

text \<open>An environment whose network answers every request with the given document.\<close>

definition answering :: "jsval \<Rightarrow> env" where
  "answering data =
     ecma\<lparr> fetch := (\<lambda>endpoint query.
       Inr \<lparr> ok = True, status = 200, text_body = [], json_body = Inr data \<rparr>) \<rparr>"

definition bob_feature :: jsval where
  "bob_feature = JObj
     [(''parcels'', JObj
        [(''features'', JArr
           [JObj [(''properties'', JObj
              [(''fields'', JObj
                 [(''parcelnumb'', JStr ''050-183-176''), (''owner'', JStr ''Bob''),
                  (''yearbuilt'', JStr ''1998'')])])]])])]"


section \<open>Properties of the conversions\<close>

lemma truthy_not_nullish: "truthy v \<Longrightarrow> \<not> nullish v"
  by (cases v) (simp_all add: nullish_def)

lemma opt_obj [simp]:
  "opt (JObj kvs) k = (case map_of kvs k of None \<Rightarrow> JUndefined | Some x \<Rightarrow> x)"
  by (simp add: opt_def get_def nullish_def)



lemma join_cases:
  assumes "\<forall>x \<in> set xs. (stringable x \<longrightarrow> \<not> isl (ToString e x))
             \<and> (\<not> stringable x \<longrightarrow>
                    ToString e x = Inl (TypeError ''Cannot convert object to primitive value''))"
  shows "(list_all (\<lambda>x. nullish x \<or> stringable x) xs \<longrightarrow> \<not> isl (join e xs))
       \<and> (\<not> list_all (\<lambda>x. nullish x \<or> stringable x) xs \<longrightarrow>
            join e xs = Inl (TypeError ''Cannot convert object to primitive value''))"
  using assms
proof (induction xs)
  case Nil
  show ?case by simp
next
  case (Cons x xs)
  then show ?case
    by (cases "ToString e x"; cases "join e xs"; cases "stringable x") auto
qed

lemma ToString_cases:
  "(stringable v \<longrightarrow> \<not> isl (ToString e v))
   \<and> (\<not> stringable v \<longrightarrow>
        ToString e v = Inl (TypeError ''Cannot convert object to primitive value''))"
proof (induction v)
  case (JArr xs)
  then show ?case
    using join_cases [of xs e] by simp
qed simp_all

lemma isl_ToString [simp]: "isl (ToString e v) \<longleftrightarrow> \<not> stringable v"
  using ToString_cases [of v e] by (cases "stringable v") auto

lemma ToString_Inl:
  "ToString e v = Inl err \<Longrightarrow> err = TypeError ''Cannot convert object to primitive value''"
  using ToString_cases [of v e] by (cases "stringable v") auto

lemma isl_bind [simp]: "isl (case x of Inl err \<Rightarrow> Inl err | Inr s \<Rightarrow> Inr (f s)) = isl x"
  by (cases x) simp_all

lemma isl_parse [simp]:
  "isl (parseFloat e v) \<longleftrightarrow> \<not> stringable v" "isl (parseInt e v) \<longleftrightarrow> \<not> stringable v"
  by (simp_all add: parseFloat_def parseInt_def)

lemma parse_Inl:
  "parseFloat e v = Inl err \<Longrightarrow> err = TypeError ''Cannot convert object to primitive value''"
  "parseInt e v = Inl err \<Longrightarrow> err = TypeError ''Cannot convert object to primitive value''"
  by (auto simp add: parseFloat_def parseInt_def split: sum.splits dest: ToString_Inl)

lemma isl_or_else [simp]: "isl (or_else r d) = isl r"
  by (simp add: or_else_def)

lemma or_else_Inl: "or_else r d = Inl err \<longleftrightarrow> r = Inl err"
  "Inl err = or_else r d \<longleftrightarrow> r = Inl err"
  by (cases r; auto simp add: or_else_def)+

lemma or_else_Inr: "or_else r d = Inr x \<longleftrightarrow> (\<exists>n. r = Inr n \<and> x = jsor (JNum n) d)"
  by (cases r) (auto simp add: or_else_def)

subsection \<open>Object literals\<close>

lemma literal_Inl: "literal entries = Inl err \<Longrightarrow> \<exists>k. (k, Inl err) \<in> set entries"
  by (induction entries rule: literal.induct) (auto split: sum.splits)

lemma isl_literal: "isl (literal entries) \<longleftrightarrow> list_ex (\<lambda>entry. isl (snd entry)) entries"
  by (induction entries rule: literal.induct) (auto split: sum.splits)

lemma literal_map_of:
  "literal entries = Inr kvs \<Longrightarrow> map_of entries k = map_option Inr (map_of kvs k)"
  by (induction entries arbitrary: kvs rule: literal.induct) (auto split: sum.splits)

lemma isl_object: "isl (object entries) \<longleftrightarrow> list_ex (\<lambda>entry. isl (snd entry)) entries"
  by (simp add: object_def isl_literal)

lemma object_Inl: "object entries = Inl err \<Longrightarrow> \<exists>k. (k, Inl err) \<in> set entries"
  by (auto simp add: object_def split: sum.splits dest: literal_Inl)

lemma object_Inr:
  assumes "object entries = Inr r"
  shows "map_of entries k = Some x \<Longrightarrow> x = Inr (opt r k)"
    and "map_of entries k = None \<Longrightarrow> opt r k = JUndefined"
  using assms literal_map_of [of entries _ k]
  by (auto simp add: object_def split: sum.splits option.splits)


section \<open>Properties of the normalizer\<close>

lemma fields_of_not_nullish: "\<not> nullish raw \<Longrightarrow> \<not> nullish (fields_of raw)"
  unfolding fields_of_def jsor_def by (auto dest: truthy_not_nullish)





text \<open>When the normalizer throws.\<close>

lemma normalizeProperty_nullish:
  "nullish raw \<Longrightarrow>
     normalizeProperty e rv raw = Inl (TypeError ''Cannot read properties of null or undefined'')"
  by (simp add: normalizeProperty_def)

lemma isl_canonical:
  "list_ex (\<lambda>entry. isl (snd entry)) (canonical_properties e rv flds)
     \<longleftrightarrow> \<not> list_all stringable (map (get flds) (numeric_sources rv))"
  by (cases rv) auto

lemma isl_normalizeProperty:
  assumes "\<not> nullish raw"
  shows "isl (normalizeProperty e rv raw) \<longleftrightarrow> \<not> list_all stringable (converted rv raw)"
  using assms
  by (auto simp add: normalizeProperty_def Let_def fields_of_not_nullish isl_object isl_literal
      isl_canonical converted_def)

lemma canonical_Inl:
  "(k, Inl err) \<in> set (canonical_properties e rv flds) \<Longrightarrow>
     err = TypeError ''Cannot convert object to primitive value''"
  by (cases rv) (auto simp add: or_else_Inl dest: parse_Inl)

lemma normalizeProperty_Inl:
  assumes "\<not> nullish raw" and "normalizeProperty e rv raw = Inl err"
  shows "err = TypeError ''Cannot convert object to primitive value''"
proof -
  from assms obtain k where
    "(k, Inl err) \<in> set
       [(''id'',
           (case ToString e (jsor (get raw ''id'')
                   (jsor (get (fields_of raw) ''id'') (JStr []))) of
              Inl err \<Rightarrow> Inl err
            | Inr s \<Rightarrow> Inr (JStr s))),
        (''centroid'', object
           [(''lat'', or_else (parseFloat e (get (fields_of raw) ''lat'')) (JNum (Fin 0))),
            (''lng'', or_else (parseFloat e (get (fields_of raw) ''lon'')) (JNum (Fin 0)))]),
        (''properties'',
           (case literal (canonical_properties e rv (fields_of raw)) of
              Inl err \<Rightarrow> Inl err
            | Inr kvs \<Rightarrow> Inr (JObj (spread kvs (fields_of raw)))))]"
    by (auto simp add: normalizeProperty_def Let_def fields_of_not_nullish object_def
        split: sum.splits dest!: literal_Inl)
  then consider
    "ToString e (jsor (get raw ''id'') (jsor (get (fields_of raw) ''id'') (JStr []))) = Inl err"
    | "object
           [(''lat'', or_else (parseFloat e (get (fields_of raw) ''lat'')) (JNum (Fin 0))),
            (''lng'', or_else (parseFloat e (get (fields_of raw) ''lon'')) (JNum (Fin 0)))]
         = Inl err"
    | "literal (canonical_properties e rv (fields_of raw)) = Inl err"
    by (auto split: sum.splits)
  then show ?thesis
  proof cases
    case 1
    then show ?thesis by (rule ToString_Inl)
  next
    case 2
    then show ?thesis
      by (auto dest!: object_Inl simp add: or_else_Inl dest: parse_Inl)
  next
    case 3
    then show ?thesis
      by (auto dest!: literal_Inl dest: canonical_Inl)
  qed
qed

text \<open>What each field of a result holds, in terms of the resolved \<open>fields_of\<close> object.\<close>

lemma normalizeProperty_object:
  assumes "normalizeProperty e rv raw = Inr r"
  shows "object
     [(''id'',
         (case ToString e (jsor (get raw ''id'') (jsor (get (fields_of raw) ''id'') (JStr []))) of
            Inl err \<Rightarrow> Inl err
          | Inr s \<Rightarrow> Inr (JStr s))),
      (''apn'', Inr (jsor (get (fields_of raw) ''parcelnumb'') (or_empty (fields_of raw) ''apn''))),
      (''address'', object
         [(''line1'', Inr (or_empty (fields_of raw) ''address'')),
          (''line2'', Inr (JStr [])),
          (''city'', Inr (jsor (get (fields_of raw) ''scity'') (or_empty (fields_of raw) ''city''))),
          (''state'', Inr (jsor (get (fields_of raw) ''state2'')
                              (or_empty (fields_of raw) ''state''))),
          (''zip'', Inr (jsor (get (fields_of raw) ''szip5'') (or_empty (fields_of raw) ''zip'')))]),
      (''geometry'', Inr (jsor (get raw ''geometry'')
         (JObj [(''type'', JStr ''Polygon''), (''coordinates'', JArr [])]))),
      (''centroid'', object
         [(''lat'', or_else (parseFloat e (get (fields_of raw) ''lat'')) (JNum (Fin 0))),
          (''lng'', or_else (parseFloat e (get (fields_of raw) ''lon'')) (JNum (Fin 0)))]),
      (''properties'',
         (case literal (canonical_properties e rv (fields_of raw)) of
            Inl err \<Rightarrow> Inl err
          | Inr kvs \<Rightarrow> Inr (JObj (spread kvs (fields_of raw)))))] = Inr r"
  using assms by (simp add: normalizeProperty_def Let_def split: if_splits)




lemma result_centroid:
  assumes "normalizeProperty e rv raw = Inr r"
  shows "\<exists>n. parseFloat e (get (fields_of raw) ''lat'') = Inr n
           \<and> path r [''centroid'', ''lat''] = jsor (JNum n) (JNum (Fin 0))"
    and "\<exists>n. parseFloat e (get (fields_of raw) ''lon'') = Inr n
           \<and> path r [''centroid'', ''lng''] = jsor (JNum n) (JNum (Fin 0))"
proof -
  have c: "object
         [(''lat'', or_else (parseFloat e (get (fields_of raw) ''lat'')) (JNum (Fin 0))),
          (''lng'', or_else (parseFloat e (get (fields_of raw) ''lon'')) (JNum (Fin 0)))]
       = Inr (opt r ''centroid'')"
    using object_Inr(1) [OF normalizeProperty_object [OF assms], of "''centroid''"] by simp
  show "\<exists>n. parseFloat e (get (fields_of raw) ''lat'') = Inr n
           \<and> path r [''centroid'', ''lat''] = jsor (JNum n) (JNum (Fin 0))"
    using object_Inr(1) [OF c, of "''lat''"] by (simp add: or_else_Inr)
  show "\<exists>n. parseFloat e (get (fields_of raw) ''lon'') = Inr n
           \<and> path r [''centroid'', ''lng''] = jsor (JNum n) (JNum (Fin 0))"
    using object_Inr(1) [OF c, of "''lng''"] by (simp add: or_else_Inr)
qed

lemma result_properties:
  assumes "normalizeProperty e rv raw = Inr r"
  shows "path r [''properties'', k] =
     (case map_of (own_props (fields_of raw)) k of
        Some x \<Rightarrow> x
      | None \<Rightarrow> canonical_value e rv (fields_of raw) k)"
proof -
  from object_Inr(1) [OF normalizeProperty_object [OF assms], of "''properties''"]
  obtain kvs where kvs: "literal (canonical_properties e rv (fields_of raw)) = Inr kvs"
    and bag: "opt r ''properties'' = JObj (spread kvs (fields_of raw))"
    by (auto split: sum.splits)
  have "canonical_value e rv (fields_of raw) k =
      (case map_of kvs k of None \<Rightarrow> JUndefined | Some x \<Rightarrow> x)"
    by (simp add: canonical_value_def literal_map_of [OF kvs] split: option.splits)
  then show ?thesis
    by (simp add: bag spread_def AList.merge_conv' map_add_def split: option.splits)
qed

lemma number_not_nan_default [simp]: "number_not_nan (jsor (JNum m) (JNum (Fin 0)))"
  by (simp add: jsor_def)

lemma number_or_undefined_or_else [simp]:
  "(case or_else r JUndefined of Inl err \<Rightarrow> True | Inr x \<Rightarrow> number_or_undefined x)"
  by (cases r) (simp_all add: or_else_def jsor_def)

lemma canonical_numeric_all:
  "list_all (\<lambda>k. case map_of (canonical_properties e rv flds) k of
                   Some (Inr x) \<Rightarrow> number_or_undefined x
                 | _ \<Rightarrow> True) (numeric_keys rv)"
  by (cases rv) (simp_all split: sum.splits)

lemma canonical_numeric:
  "k \<in> set (numeric_keys rv) \<Longrightarrow> number_or_undefined (canonical_value e rv flds k)"
  using canonical_numeric_all [of e rv flds]
  by (auto simp add: list_all_iff canonical_value_def split: option.splits sum.splits)


lemmas normalizer_eval = normalizeProperty_def Let_def nullish_def fields_of_def jsor_def get_def
  opt_def spread_def or_empty_def or_else_def object_def parseFloat_def parseInt_def converted_def

lemmas parse_eval = str_parseFloat_def str_parseInt_def signed_def str_integer_def str_decimal_def
  decimal_prefix_def is_space_def is_digit_def dec_nat_def digit_val_def to_double_def
  exponent_split_def scale10_def

lemma ecma_fields:
  "js_parseFloat ecma = str_parseFloat" "js_parseInt ecma = str_parseInt"
  "js_numberToString ecma = number_toString" "js_stringToNumber ecma = str_number"
  "apiKey ecma = Some ''key''" "now ecma = ''2025-01-01T00:00:00.000Z''"
  "fetch ecma endpoint query = Inl (Error ''fetch failed'')"
  by (simp_all add: ecma_def)

lemma answering_fields:
  "js_parseFloat (answering d) = str_parseFloat" "js_parseInt (answering d) = str_parseInt"
  "js_numberToString (answering d) = number_toString"
  "js_stringToNumber (answering d) = str_number"
  "apiKey (answering d) = Some ''key''" "now (answering d) = ''2025-01-01T00:00:00.000Z''"
  "fetch (answering d) endpoint query =
     Inr \<lparr> ok = True, status = 200, text_body = [], json_body = Inr d \<rparr>"
  by (simp_all add: answering_def ecma_def)

text \<open>The model of the conversions on some numbers: a fraction, an integer, and the
  exponent notation, which \<^verbatim>\<open>parseInt\<close> reads up to the \<^verbatim>\<open>e\<close>.\<close>

lemma floor_rat_numeral:
  "\<lfloor>(numeral a :: rat) / numeral b\<rfloor> = numeral a div numeral b"
  using floor_divide_of_int_eq [of "numeral a" "numeral b", where ?'a = rat] by simp

lemma replicate_numeral: "replicate (numeral n) x = x # replicate (pred_numeral n) x"
  by (simp add: numeral_eq_Suc)

lemmas render_eval = positive_toString_def layout_def significant_digits_def rounded17_def
  decimal_exponent_def show_nat.simps floor_rat_numeral replicate_numeral

lemma number_toString_examples:
  "number_toString (Fin (1 / 2)) = ''0.5''"
  "number_toString (Fin (- 395 / 10)) = ''-39.5''"
  "number_toString (Fin 1200) = ''1200''"
  "number_toString (Fin (10 ^ 21)) = ''1e+21''"
  "number_toString (Fin (5 / 10 ^ 7)) = ''5e-7''"
  by (simp_all add: render_eval scale10_def)

lemma parse_examples:
  "parseInt ecma (JNum (Fin (10 ^ 21))) = Inr (Fin 1)"
  "parseInt ecma (JNum (Fin (5 / 10 ^ 7))) = Inr (Fin 5)"
  "parseInt ecma (JStr ''12px'') = Inr (Fin 12)"
  "parseFloat ecma (JArr [JStr ''1.5'', JNull]) = Inr (Fin (3 / 2))"
  by (simp_all add: parseInt_def parseFloat_def ecma_fields render_eval parse_eval nullish_def)

subsection \<open>Totality and the numeric fields\<close>

text \<open>
  Claim C4, as amended. \<open>normalizeProperty\<close> raises a TypeError on \<^verbatim>\<open>null\<close> and
  \<^verbatim>\<open>undefined\<close>, and on an input in which a value handed to \<^verbatim>\<open>String\<close>, \<^verbatim>\<open>parseFloat\<close> or
  \<^verbatim>\<open>parseInt\<close> does not convert to a string (an object with a \<^verbatim>\<open>toString\<close> property of
  its own, or an array holding one). On every other input, in particular on every
  record whose fields are strings, numbers, booleans or \<^verbatim>\<open>null\<close>, whatever fields it
  lacks, it returns a result. The centroid latitude and longitude of the result are
  numbers and never NaN (0 when the input does not parse). Each numeric key of the
  attribute bag that is not itself a key of the raw fields record is \<^verbatim>\<open>undefined\<close> or a
  non-zero number other than NaN.
\<close>

theorem normalizer_total:
  "(nullish raw \<longrightarrow> (\<exists>m. normalizeProperty e rv raw = Inl (TypeError m)))
   \<and> (\<not> nullish raw \<and> \<not> list_all stringable (converted rv raw) \<longrightarrow>
        (\<exists>m. normalizeProperty e rv raw = Inl (TypeError m)))
   \<and> (\<not> nullish raw \<and> list_all stringable (converted rv raw) \<longrightarrow>
        (\<exists>r. normalizeProperty e rv raw = Inr r
           \<and> number_not_nan (path r [''centroid'', ''lat''])
           \<and> number_not_nan (path r [''centroid'', ''lng''])
           \<and> (\<forall>k \<in> set (numeric_keys rv). k \<notin> fst ` set (own_props (fields_of raw)) \<longrightarrow>
                 number_or_undefined (path r [''properties'', k]))))"
proof (intro conjI impI)
  assume "nullish raw"
  then show "\<exists>m. normalizeProperty e rv raw = Inl (TypeError m)"
    by (simp add: normalizeProperty_nullish)
next
  assume a: "\<not> nullish raw \<and> \<not> list_all stringable (converted rv raw)"
  then have "isl (normalizeProperty e rv raw)"
    by (simp add: isl_normalizeProperty)
  then obtain err where err: "normalizeProperty e rv raw = Inl err"
    by (cases "normalizeProperty e rv raw") simp_all
  with a show "\<exists>m. normalizeProperty e rv raw = Inl (TypeError m)"
    using normalizeProperty_Inl [of raw e rv err] by simp
next
  assume a: "\<not> nullish raw \<and> list_all stringable (converted rv raw)"
  then have "\<not> isl (normalizeProperty e rv raw)"
    by (simp add: isl_normalizeProperty)
  then obtain r where r: "normalizeProperty e rv raw = Inr r"
    by (cases "normalizeProperty e rv raw") simp_all
  have lat: "number_not_nan (path r [''centroid'', ''lat''])"
    using result_centroid(1) [OF r] by auto
  have lng: "number_not_nan (path r [''centroid'', ''lng''])"
    using result_centroid(2) [OF r] by auto
  have bag: "number_or_undefined (path r [''properties'', k])"
    if k: "k \<in> set (numeric_keys rv)" and absent: "k \<notin> fst ` set (own_props (fields_of raw))"
    for k
  proof -
    from absent have "map_of (own_props (fields_of raw)) k = None"
      by (simp add: map_of_eq_None_iff)
    then have "path r [''properties'', k] = canonical_value e rv (fields_of raw) k"
      by (simp only: result_properties [OF r] option.case)
    then show ?thesis
      using canonical_numeric [OF k] by simp
  qed
  from r lat lng bag show "\<exists>r. normalizeProperty e rv raw = Inr r
           \<and> number_not_nan (path r [''centroid'', ''lat''])
           \<and> number_not_nan (path r [''centroid'', ''lng''])
           \<and> (\<forall>k \<in> set (numeric_keys rv). k \<notin> fst ` set (own_props (fields_of raw)) \<longrightarrow>
                 number_or_undefined (path r [''properties'', k]))"
    by blast
qed

theorem normalizer_total_witness:
  "nullish JNull
   \<and> (\<exists>m. normalizeProperty ecma Enhanced JNull = Inl (TypeError m))
   \<and> \<not> nullish (JObj [(''lat'', JObj [(''toString'', JNum (Fin 1))])])
   \<and> \<not> list_all stringable
         (converted Enhanced (JObj [(''lat'', JObj [(''toString'', JNum (Fin 1))])]))
   \<and> (\<exists>m. normalizeProperty ecma Enhanced
              (JObj [(''lat'', JObj [(''toString'', JNum (Fin 1))])]) = Inl (TypeError m))
   \<and> \<not> nullish (JObj [(''yearbuilt'', JStr ''1998''), (''lat'', JStr ''abc'')])
   \<and> list_all stringable
        (converted Enhanced (JObj [(''yearbuilt'', JStr ''1998''), (''lat'', JStr ''abc'')]))
   \<and> (\<exists>r. normalizeProperty ecma Enhanced
            (JObj [(''yearbuilt'', JStr ''1998''), (''lat'', JStr ''abc'')]) = Inr r
        \<and> path r [''centroid'', ''lat''] = JNum (Fin 0)
        \<and> number_not_nan (path r [''centroid'', ''lng''])
        \<and> path r [''properties'', ''year_built''] = JNum (Fin 1998)
        \<and> number_or_undefined (path r [''properties'', ''land_value'']))"
proof -
  let ?bad = "JObj [(''lat'', JObj [(''toString'', JNum (Fin 1))])]"
  let ?raw = "JObj [(''yearbuilt'', JStr ''1998''), (''lat'', JStr ''abc'')]"
  have n0: "nullish JNull"
    by (simp add: nullish_def)
  have t0: "\<exists>m. normalizeProperty ecma Enhanced JNull = Inl (TypeError m)"
    using normalizer_total [of JNull ecma Enhanced] n0 by blast
  have n1: "\<not> nullish ?bad"
    by (simp add: nullish_def)
  have s1: "\<not> list_all stringable (converted Enhanced ?bad)"
    by (simp add: converted_def fields_of_def jsor_def get_def opt_def nullish_def)
  have t1: "\<exists>m. normalizeProperty ecma Enhanced ?bad = Inl (TypeError m)"
    using normalizer_total [of ?bad ecma Enhanced] n1 s1 by blast
  have n: "\<not> nullish ?raw"
    by (simp add: nullish_def)
  have s: "list_all stringable (converted Enhanced ?raw)"
    by (simp add: converted_def fields_of_def jsor_def get_def opt_def nullish_def)
  have f: "fields_of ?raw = ?raw"
    by (simp add: fields_of_def jsor_def get_def opt_def nullish_def)
  obtain r where r: "normalizeProperty ecma Enhanced ?raw = Inr r"
    and lng: "number_not_nan (path r [''centroid'', ''lng''])"
    and bag: "\<forall>k \<in> set (numeric_keys Enhanced).
                k \<notin> fst ` set (own_props (fields_of ?raw)) \<longrightarrow>
                number_or_undefined (path r [''properties'', k])"
    using normalizer_total [of ?raw ecma Enhanced] n s by blast
  have lat: "path r [''centroid'', ''lat''] = JNum (Fin 0)"
    using result_centroid(1) [OF r] unfolding f
    by (auto simp add: get_def jsor_def parseFloat_def ecma_fields parse_eval)
  have yb: "path r [''properties'', ''year_built''] = JNum (Fin 1998)"
    unfolding result_properties [OF r] f
    by (simp add: canonical_value_def get_def or_else_def parseInt_def parseFloat_def jsor_def
        ecma_fields parse_eval)
  have lv: "number_or_undefined (path r [''properties'', ''land_value''])"
    using bag by (simp add: f)
  have "normalizeProperty ecma Enhanced ?raw = Inr r
        \<and> path r [''centroid'', ''lat''] = JNum (Fin 0)
        \<and> number_not_nan (path r [''centroid'', ''lng''])
        \<and> path r [''properties'', ''year_built''] = JNum (Fin 1998)
        \<and> number_or_undefined (path r [''properties'', ''land_value''])"
    using r lat lng yb lv by (intro conjI)
  then have t: "\<exists>r. normalizeProperty ecma Enhanced ?raw = Inr r
        \<and> path r [''centroid'', ''lat''] = JNum (Fin 0)
        \<and> number_not_nan (path r [''centroid'', ''lng''])
        \<and> path r [''properties'', ''year_built''] = JNum (Fin 1998)
        \<and> number_or_undefined (path r [''properties'', ''land_value''])"
    by (intro exI)
  from n0 t0 n1 s1 t1 n s t show ?thesis
    by (intro conjI)
qed

text \<open>
  Claim C4 as stated fails. The input \<^verbatim>\<open>{lat: "Infinity", building_sqft: "abc"}\<close> is a
  record; \<^verbatim>\<open>parseFloat("Infinity") || 0\<close> is \<^verbatim>\<open>Infinity\<close>, so the latitude is a number
  that is not finite, and the spread puts the raw string back under
  \<^verbatim>\<open>building_sqft\<close>, so that numeric field is neither a number nor \<^verbatim>\<open>undefined\<close>. And
  the input \<^verbatim>\<open>{lat: {toString: 1}}\<close>, a record with a malformed field, makes
  \<^verbatim>\<open>parseFloat\<close> throw: the normalizer raises.
\<close>

theorem normalizer_numeric_counterexample:
  "(case normalizeProperty ecma Enhanced
           (JObj [(''lat'', JStr ''Infinity''), (''building_sqft'', JStr ''abc'')]) of
      Inl err \<Rightarrow> False
    | Inr r \<Rightarrow>
        path r [''centroid'', ''lat''] = JNum PosInf
        \<and> \<not> finite_or_absent (path r [''centroid'', ''lat''])
        \<and> path r [''properties'', ''building_sqft''] = JStr ''abc''
        \<and> \<not> finite_or_absent (path r [''properties'', ''building_sqft'']))
   \<and> normalizeProperty ecma Enhanced (JObj [(''lat'', JObj [(''toString'', JNum (Fin 1))])])
       = Inl (TypeError ''Cannot convert object to primitive value'')"
  by (simp add: normalizer_eval ecma_fields parse_eval)


subsection \<open>Canonical keys and the passthrough\<close>

text \<open>What the code does on a collision: every key of the raw fields record is in the
  bag with its raw value.\<close>

lemma passthrough_wins:
  assumes "normalizeProperty e rv raw = Inr r"
    and "k \<in> fst ` set (own_props (fields_of raw))"
  shows "path r [''properties'', k] = get (fields_of raw) k"
proof -
  from assms(2) obtain x where "map_of (own_props (fields_of raw)) k = Some x"
    by (cases "map_of (own_props (fields_of raw)) k") (auto simp add: map_of_eq_None_iff)
  then show ?thesis
    by (simp only: result_properties [OF assms(1)] get_def option.case)
qed

text \<open>
  Claim C5 says that a canonical key keeps its parsed or defaulted value when the raw
  record has a leaf of the same name. The source writes \<^verbatim>\<open>...fields\<close> last in the
  literal, so the raw leaf replaces the canonical value. At the record
  \<^verbatim>\<open>{owner: null, building_sqft: "1200", zoning: null}\<close>, in both revisions, the bag
  holds \<^verbatim>\<open>null\<close> for the owner and the zoning where the literal computed the empty
  string, and the string \<^verbatim>\<open>"1200"\<close> where it computed the number 1200.
\<close>

theorem passthrough_replaces_canonical:
  "(case normalizeProperty ecma Enhanced
           (JObj [(''owner'', JNull), (''building_sqft'', JStr ''1200''),
                  (''zoning'', JNull)]) of
      Inl err \<Rightarrow> False
    | Inr r \<Rightarrow>
        path r [''properties'', ''owner''] = JNull
        \<and> path r [''properties'', ''building_sqft''] = JStr ''1200''
        \<and> path r [''properties'', ''zoning''] = JNull)
   \<and> (case normalizeProperty ecma Lib
           (JObj [(''owner'', JNull), (''building_sqft'', JStr ''1200''),
                  (''zoning'', JNull)]) of
      Inl err \<Rightarrow> False
    | Inr r \<Rightarrow>
        path r [''properties'', ''owner''] = JNull
        \<and> path r [''properties'', ''building_sqft''] = JStr ''1200''
        \<and> path r [''properties'', ''zoning''] = JNull)
   \<and> canonical_value ecma Enhanced
         (JObj [(''owner'', JNull), (''building_sqft'', JStr ''1200''),
                (''zoning'', JNull)]) ''owner'' = JStr []
   \<and> canonical_value ecma Enhanced
         (JObj [(''owner'', JNull), (''building_sqft'', JStr ''1200''),
                (''zoning'', JNull)]) ''building_sqft'' = JNum (Fin 1200)
   \<and> canonical_value ecma Enhanced
         (JObj [(''owner'', JNull), (''building_sqft'', JStr ''1200''),
                (''zoning'', JNull)]) ''zoning'' = JStr []"
  by (simp add: normalizer_eval canonical_value_def ecma_fields parse_eval)

subsection \<open>Precedence of field locations\<close>




section \<open>Properties of the lookup client\<close>

lemma batch_is_successes:
  "map fulfilled_value (filter fulfilled_not_null (allSettled rs)) = successes rs"
proof (induction rs)
  case Nil
  show ?case by (simp add: allSettled_def)
next
  case (Cons r rs)
  then show ?case by (cases r) (simp_all add: allSettled_def)
qed

lemma successes_dropped: "length (successes rs) + dropped rs = length rs"
proof (induction rs)
  case Nil
  show ?case by simp
next
  case (Cons r rs)
  then show ?case by (cases r) simp_all
qed

lemma allSettled_length: "length (allSettled rs) = length rs"
  by (simp add: allSettled_def)

text \<open>
  Claim C9. \<^verbatim>\<open>batchSearchByAPNs\<close> settles one lookup per parcel number (the settled
  list is as long as the input), and returns exactly the results of the lookups that
  succeeded with a value other than \<^verbatim>\<open>null\<close>, in request order; every failed or
  not-found lookup is dropped, so the result and the dropped lookups add up to the
  input. The function has no error result: it returns a list for every input.
\<close>

theorem batch_lookup_partial_failure:
  "length (allSettled (map (\<lambda>a. searchByAPN e rv a st) apns)) = length apns
   \<and> batchSearchByAPNs e rv apns st = successes (map (\<lambda>a. searchByAPN e rv a st) apns)
   \<and> length (batchSearchByAPNs e rv apns st)
       + dropped (map (\<lambda>a. searchByAPN e rv a st) apns) = length apns"
  by (simp add: batchSearchByAPNs_def batch_is_successes successes_dropped allSettled_length)

section \<open>Properties of the routes\<close>

lemmas example_rows = example_store_def alice_row_def elm_row_def oak_row_def blank_row_def

lemmas text_eval = search_matches_def text_matches_def toLowerCase_def lower_char_def
  upper_case_def lower_case_def

lemma toLowerCase_example:
  "toLowerCase [CHR ''A'', CHR ''b'', CHR ''-'', CHR 0xC9, CHR 0xD7]
     = [CHR ''a'', CHR ''b'', CHR ''-'', CHR 0xE9, CHR 0xD7]"
  by (simp add: text_eval)

subsection \<open>Duplicate Resolver\<close>

text \<open>
  Claim C7. For an authenticated owner and a non-empty parcel number, the route fetches
  the candidates by the search primitive with the parcel number as search term. When
  some candidate has a parcel number equal to the query ignoring case, it answers 200
  with \<^verbatim>\<open>exists: true\<close> and the id, address, city, state, parcel number and creation time
  of such a candidate; otherwise it answers 200 with \<^verbatim>\<open>exists: false\<close> and nothing else.
  The comparison lowers the case and does nothing else: separators are not stripped.
\<close>

theorem duplicate_resolver:
  assumes "userId = Some uid" and "uid \<noteq> []" and "apn_param = Some q" and "q \<noteq> []"
    and "getFilteredProperties db uid q = Inr candidates"
  shows "((\<exists>p \<in> set candidates. \<exists>a. p_apn p = Some a \<and> toLowerCase a = toLowerCase q) \<longrightarrow>
            (\<exists>m \<in> set candidates. \<exists>a.
               p_apn m = Some a \<and> toLowerCase a = toLowerCase q
               \<and> check_apn_GET db userId apn_param =
                   (200, JObj
                      [(''exists'', JBool True),
                       (''property'', JObj
                          [(''id'', JStr (p_id m)),
                           (''address'', JStr (p_address m)),
                           (''city'', case p_city m of None \<Rightarrow> JNull | Some c \<Rightarrow> JStr c),
                           (''state'', case p_state m of None \<Rightarrow> JNull | Some s \<Rightarrow> JStr s),
                           (''apn'', JStr a),
                           (''created_at'', JStr (p_created_at m))])])))
       \<and> (\<not> (\<exists>p \<in> set candidates. \<exists>a. p_apn p = Some a \<and> toLowerCase a = toLowerCase q) \<longrightarrow>
            check_apn_GET db userId apn_param = (200, JObj [(''exists'', JBool False)]))"
proof -
  have eq: "apn_equal q p \<longleftrightarrow> (\<exists>a. p_apn p = Some a \<and> toLowerCase a = toLowerCase q)" for p
    by (cases "p_apn p") (simp_all add: apn_equal_def)
  have run: "check_apn_GET db userId apn_param =
      (case find (apn_equal q) candidates of
         Some exactMatch \<Rightarrow> (200, match_json exactMatch)
       | None \<Rightarrow> (200, JObj [(''exists'', JBool False)]))"
    using assms by (simp add: check_apn_GET_def js_text_def)
  show ?thesis
  proof (cases "find (apn_equal q) candidates")
    case None
    then have "\<not> (\<exists>p \<in> set candidates. apn_equal q p)"
      by (simp add: find_None_iff)
    with None run show ?thesis
      by (auto simp add: eq)
  next
    case (Some m)
    then have m: "m \<in> set candidates" and "apn_equal q m"
      by (auto simp add: find_Some_iff)
    then obtain a where a: "p_apn m = Some a" "toLowerCase a = toLowerCase q"
      by (auto simp add: eq)
    have "check_apn_GET db userId apn_param =
        (200, JObj
           [(''exists'', JBool True),
            (''property'', JObj
               [(''id'', JStr (p_id m)),
                (''address'', JStr (p_address m)),
                (''city'', case p_city m of None \<Rightarrow> JNull | Some c \<Rightarrow> JStr c),
                (''state'', case p_state m of None \<Rightarrow> JNull | Some s \<Rightarrow> JStr s),
                (''apn'', JStr a),
                (''created_at'', JStr (p_created_at m))])])"
      by (simp add: run Some match_json_def js_text_def a)
    with m a show ?thesis
      by blast
  qed
qed

theorem duplicate_resolver_witness:
  "Some ''u1'' = Some ''u1'' \<and> ''u1'' \<noteq> [] \<and> Some ''ab-12'' = Some ''ab-12'' \<and> ''ab-12'' \<noteq> []
   \<and> getFilteredProperties example_store ''u1'' ''ab-12'' = Inr [elm_row]
   \<and> check_apn_GET example_store (Some ''u1'') (Some ''ab-12'') =
       (200, JObj
          [(''exists'', JBool True),
           (''property'', JObj
              [(''id'', JStr ''2''),
               (''address'', JStr ''9 Elm St''),
               (''city'', JNull),
               (''state'', JNull),
               (''apn'', JStr ''AB-12''),
               (''created_at'', JStr ''2024-05-01T00:00:00.000Z'')])])
   \<and> getFilteredProperties example_store ''u1'' ''050183176'' = Inr [oak_row]
   \<and> check_apn_GET example_store (Some ''u1'') (Some ''050183176'')
       = (200, JObj [(''exists'', JBool False)])"
proof -
  have c1: "getFilteredProperties example_store ''u1'' ''ab-12'' = Inr [elm_row]"
    by (simp add: getFilteredProperties_def example_rows text_eval)
  have c2: "getFilteredProperties example_store ''u1'' ''050183176'' = Inr [oak_row]"
    by (simp add: getFilteredProperties_def example_rows text_eval)
  have m: "\<exists>p \<in> set [elm_row]. \<exists>a. p_apn p = Some a \<and> toLowerCase a = toLowerCase ''ab-12''"
    by (simp add: example_rows text_eval)
  have n: "\<not> (\<exists>p \<in> set [oak_row]. \<exists>a. p_apn p = Some a \<and> toLowerCase a = toLowerCase ''050183176'')"
    by (simp add: example_rows)
  have r1: "check_apn_GET example_store (Some ''u1'') (Some ''ab-12'') =
       (200, JObj
          [(''exists'', JBool True),
           (''property'', JObj
              [(''id'', JStr ''2''),
               (''address'', JStr ''9 Elm St''),
               (''city'', JNull),
               (''state'', JNull),
               (''apn'', JStr ''AB-12''),
               (''created_at'', JStr ''2024-05-01T00:00:00.000Z'')])])"
    using duplicate_resolver [OF refl _ refl _ c1] m by (simp add: example_rows)
  have r2: "check_apn_GET example_store (Some ''u1'') (Some ''050183176'')
       = (200, JObj [(''exists'', JBool False)])"
    using duplicate_resolver [OF refl _ refl _ c2] n by simp
  from c1 c2 r1 r2 show ?thesis by simp
qed

subsection \<open>Refresh\<close>

lemma refresh_catch_status: "fst (refresh_catch err) \<noteq> 200"
  by (simp add: refresh_catch_def)

text \<open>
  Claim C8. For an authenticated caller and a record id: when no record of that id
  belongs to the caller the route answers 404 (not found); when the record has no
  parcel number it answers 400 (refresh ineligible); when the provider lookup throws it
  answers 503 (provider unavailable). In the three cases the store is returned as it
  was: no write is issued.
\<close>

theorem refresh_precondition_errors:
  assumes "userId = Some uid" and "uid \<noteq> []" and "pid \<noteq> []"
  shows "(getProperty db pid uid = Inr None \<longrightarrow>
            refresh_POST e rv db userId pid = ((404, error_json ''Property not found''), db))
       \<and> (\<forall>existing. getProperty db pid uid = Inr (Some existing) \<and> p_apn existing = None \<longrightarrow>
            refresh_POST e rv db userId pid =
              ((400, error_json ''Cannot refresh property: No APN available''), db))
       \<and> (\<forall>existing number err.
            getProperty db pid uid = Inr (Some existing) \<and> p_apn existing = Some number
            \<and> number \<noteq> []
            \<and> searchByAPN e rv number (jsor (js_text (p_state existing)) JUndefined) = Inl err \<longrightarrow>
            refresh_POST e rv db userId pid =
              ((503, error_json ''Failed to fetch updated property data from Regrid API''), db))"
  using assms by (simp add: refresh_POST_def js_text_def)

lemmas store_eval = getProperty_def getFilteredProperties_def createProperty_def
  updateProperty_def updated_row_def new_row_def set_text_def set_number_def set_json_def
  as_text_def as_number_def as_tags_def js_text_def js_number_def js_tags_def payload_value_def

lemmas lookup_eval = searchByAPN_def makeRequest_def opt_string_def length_positive_def
  query_params_def toString_method_def show_nat.simps

theorem refresh_precondition_errors_witness:
  "Some ''u1'' = Some ''u1'' \<and> ''u1'' \<noteq> [] \<and> ''9'' \<noteq> [] \<and> ''3'' \<noteq> [] \<and> ''1'' \<noteq> []
   \<and> getProperty example_store ''9'' ''u1'' = Inr None
   \<and> refresh_POST ecma Enhanced example_store (Some ''u1'') ''9''
       = ((404, error_json ''Property not found''), example_store)
   \<and> getProperty example_store ''3'' ''u1'' = Inr (Some oak_row) \<and> p_apn oak_row = None
   \<and> refresh_POST ecma Enhanced example_store (Some ''u1'') ''3''
       = ((400, error_json ''Cannot refresh property: No APN available''), example_store)
   \<and> getProperty example_store ''1'' ''u1'' = Inr (Some alice_row)
   \<and> p_apn alice_row = Some ''050-183-176''
   \<and> searchByAPN ecma Enhanced ''050-183-176'' (jsor (js_text (p_state alice_row)) JUndefined)
       = Inl (Error ''fetch failed'')
   \<and> refresh_POST ecma Enhanced example_store (Some ''u1'') ''1''
       = ((503, error_json ''Failed to fetch updated property data from Regrid API''),
          example_store)"
proof -
  have g9: "getProperty example_store ''9'' ''u1'' = Inr None"
    by (simp add: getProperty_def example_rows)
  have g3: "getProperty example_store ''3'' ''u1'' = Inr (Some oak_row)"
    by (simp add: getProperty_def example_rows)
  have a3: "p_apn oak_row = None"
    by (simp add: example_rows)
  have g1: "getProperty example_store ''1'' ''u1'' = Inr (Some alice_row)"
    by (simp add: getProperty_def example_rows)
  have a1: "p_apn alice_row = Some ''050-183-176''"
    by (simp add: example_rows)
  have s1: "searchByAPN ecma Enhanced ''050-183-176''
              (jsor (js_text (p_state alice_row)) JUndefined) = Inl (Error ''fetch failed'')"
    by (simp add: lookup_eval ecma_fields nullish_def)
  have r9: "refresh_POST ecma Enhanced example_store (Some ''u1'') ''9''
       = ((404, error_json ''Property not found''), example_store)"
    using refresh_precondition_errors [OF refl, of "''u1''" "''9''" example_store ecma Enhanced] g9
    by simp
  have r3: "refresh_POST ecma Enhanced example_store (Some ''u1'') ''3''
       = ((400, error_json ''Cannot refresh property: No APN available''), example_store)"
    using refresh_precondition_errors [OF refl, of "''u1''" "''3''" example_store ecma Enhanced]
      g3 a3
    by simp
  have r1: "refresh_POST ecma Enhanced example_store (Some ''u1'') ''1''
       = ((503, error_json ''Failed to fetch updated property data from Regrid API''),
          example_store)"
    using refresh_precondition_errors [OF refl, of "''u1''" "''1''" example_store ecma Enhanced]
      g1 a1 s1
    by simp
  from g9 g3 a3 g1 a1 s1 r9 r3 r1 show ?thesis by simp
qed






lemma string_of_js_text [simp]: "string_of (js_text (Some s)) = s"
  by (simp add: js_text_def)

lemma refresh_catch_not_ok [simp]: "refresh_catch err \<noteq> (200, b)"
  using refresh_catch_status [of err] by (cases "refresh_catch err") auto



lemma as_tags_js_tags [simp]: "as_tags (js_tags x) = x"
proof (cases x)
  case None
  then show ?thesis by (simp add: as_tags_def js_tags_def)
next
  case (Some ts)
  have "list_all is_string (map JStr ts)"
    by (induction ts) simp_all
  moreover have "map string_of (map JStr ts) = ts"
    by (induction ts) simp_all
  ultimately show ?thesis
    by (simp add: as_tags_def js_tags_def Some)
qed

lemma as_text_js_text [simp]: "as_text (js_text x) = x"
  by (cases x) (simp_all add: as_text_def js_text_def)







subsection \<open>Create\<close>

lemma str_includes_self: "str_includes s s"
  by (cases s) simp_all

lemma duplicate_check_found:
  assumes "db_error db = None" and "owned_match db uid a"
  shows "duplicate_check e db uid (JStr a) =
           Inl (Error ''A property with this APN already exists in your portfolio'')"
proof -
  from assms(2) obtain p where p: "p \<in> set (table_rows db)" and own: "p_user_id p = uid"
    and eq: "map_option toLowerCase (p_apn p) = Some (toLowerCase a)"
    by (auto simp add: owned_match_def list_ex_iff)
  from eq obtain b where b: "p_apn p = Some b" and lb: "toLowerCase b = toLowerCase a"
    by (cases "p_apn p") auto
  let ?cands = "filter (\<lambda>p. p_user_id p = uid \<and> search_matches a p) (table_rows db)"
  have "search_matches a p"
    by (simp add: search_matches_def text_matches_def b lb str_includes_self)
  with p own have in_c: "p \<in> set ?cands"
    by simp
  have "apn_equal a p"
    by (simp add: apn_equal_def eq)
  with in_c have "find (apn_equal a) ?cands \<noteq> None"
    by (auto simp add: find_None_iff)
  moreover from in_c have "?cands \<noteq> []"
    by (fastforce simp add: filter_empty_conv)
  ultimately show ?thesis
    using assms(1)
    by (auto simp add: duplicate_check_def getFilteredProperties_def split: option.splits)
qed

lemma duplicate_check_clear:
  assumes "db_error db = None" and "\<not> owned_match db uid a"
  shows "duplicate_check e db uid (JStr a) = Inr ()"
proof -
  let ?cands = "filter (\<lambda>p. p_user_id p = uid \<and> search_matches a p) (table_rows db)"
  have "\<not> apn_equal a p" if "p \<in> set ?cands" for p
    using that assms(2) by (auto simp add: owned_match_def list_ex_iff apn_equal_def)
  then have "find (apn_equal a) ?cands = None"
    by (simp add: find_None_iff)
  then show ?thesis
    using assms(1)
    by (simp add: duplicate_check_def getFilteredProperties_def)
qed

lemma createProperty_stored:
  assumes "createProperty e db uid payload = (Inr (Some row), db')"
  shows "db' = db\<lparr>table_rows := table_rows db @ [row], next_id := Suc (next_id db)\<rparr>"
    and "p_user_id row = uid"
    and "p_apn row = as_text (payload_value payload ''apn'')"
  using assms
  by (auto simp add: createProperty_def new_row_def Let_def split: option.splits db_outcome.splits)

text \<open>
  Claim C2. Take a create input that passes validation, whose provider lookup returns,
  and whose merged parcel number is a non-empty string, on a database that answers.
  When the user already owns a record with that parcel number (ignoring case), the
  create fails with the duplicate error and the store is unchanged. When the user owns
  none and the database accepts the row, the create succeeds. And whenever a create
  succeeds, it adds one row, and the same create on the resulting store fails with the
  duplicate error and leaves that store unchanged.
\<close>

theorem create_rejects_duplicates:
  assumes "createPropertySchema_parse e body = Inr v"
    and "lookup_regrid e rv v = Inr regridData"
    and "payload_value (propertyData v regridData) ''apn'' = JStr a" and "a \<noteq> []"
    and "db_error db = None"
  shows "(owned_match db uid a \<longrightarrow>
            handleSingleCreate e rv db uid body =
              (Inl (Error (''Database error: ''
                            @ ''A property with this APN already exists in your portfolio'')), db))
       \<and> (\<not> owned_match db uid a \<and> insert_check db uid (propertyData v regridData) = Stored \<longrightarrow>
            (\<exists>resp db'. handleSingleCreate e rv db uid body = (Inr resp, db')))
       \<and> (\<forall>resp db'. handleSingleCreate e rv db uid body = (Inr resp, db') \<longrightarrow>
            length (table_rows db') = Suc (length (table_rows db))
            \<and> handleSingleCreate e rv db' uid body =
                (Inl (Error (''Database error: ''
                              @ ''A property with this APN already exists in your portfolio'')),
                 db'))"
proof -
  let ?data = "propertyData v regridData"
  have run: "handleSingleCreate e rv d uid body =
      (case duplicate_check e d uid (JStr a) of
         Inl dbError \<Rightarrow> (Inl (Error (''Database error: '' @ message dbError)), d)
       | Inr u \<Rightarrow>
           (case createProperty e d uid ?data of
              (Inl dbError, d') \<Rightarrow> (Inl (Error (''Database error: '' @ message dbError)), d')
            | (Inr None, d') \<Rightarrow>
                (Inl (Error (''Database error: ''
                              @ ''Cannot read properties of null (reading id)'')), d')
            | (Inr (Some property), d') \<Rightarrow>
                (Inr (200, JObj [(''property'', row_json property)]), d')))" for d
    using assms(1-4) by (simp add: handleSingleCreate_def Let_def)
  have dup: "handleSingleCreate e rv d uid body =
      (Inl (Error (''Database error: ''
                    @ ''A property with this APN already exists in your portfolio'')), d)"
    if "db_error d = None" and "owned_match d uid a" for d
    using duplicate_check_found [OF that, of e] by (simp add: run)
  have first: "\<exists>resp db'. handleSingleCreate e rv db uid body = (Inr resp, db')"
    if "\<not> owned_match db uid a" and "insert_check db uid ?data = Stored"
    using duplicate_check_clear [OF assms(5) that(1), of e] that(2) assms(5)
    by (simp add: run createProperty_def Let_def)
  have second: "length (table_rows db') = Suc (length (table_rows db))
      \<and> handleSingleCreate e rv db' uid body =
          (Inl (Error (''Database error: ''
                        @ ''A property with this APN already exists in your portfolio'')), db')"
    if ok: "handleSingleCreate e rv db uid body = (Inr resp, db')" for resp db'
  proof -
    from ok obtain row where c: "createProperty e db uid ?data = (Inr (Some row), db')"
      by (auto simp add: run split: sum.splits prod.splits option.splits)
    note st = createProperty_stored [OF c]
    have e': "db_error db' = None"
      using assms(5) by (simp add: st(1))
    have "p_apn row = Some a"
      by (simp add: st(3) assms(3) as_text_def)
    then have "owned_match db' uid a"
      by (simp add: owned_match_def st(1) st(2))
    from dup [OF e' this] show ?thesis
      by (simp add: st(1))
  qed
  from dup [OF assms(5)] first second show ?thesis
    by blast
qed

lemmas create_eval = handleSingleCreate_def createPropertySchema_parse_def optional_string_def
  string_or_number_def string_array_def regrid_id_transform_def lookup_regrid_def
  propertyData_def duplicate_check_def empty_store_def

theorem create_rejects_duplicates_witness:
  "(\<exists>v rd.
      createPropertySchema_parse (answering bob_feature)
        (JObj [(''apn'', JStr ''050-183-176''), (''address'', JStr ''123 Main St'')]) = Inr v
      \<and> lookup_regrid (answering bob_feature) Enhanced v = Inr rd
      \<and> payload_value (propertyData v rd) ''apn'' = JStr ''050-183-176'')
   \<and> ''050-183-176'' \<noteq> []
   \<and> db_error empty_store = None
   \<and> (\<exists>resp db'.
        handleSingleCreate (answering bob_feature) Enhanced empty_store ''u1''
          (JObj [(''apn'', JStr ''050-183-176''), (''address'', JStr ''123 Main St'')])
          = (Inr resp, db')
        \<and> map p_apn (table_rows db') = [Some ''050-183-176'']
        \<and> map p_owner (table_rows db') = [Some ''Bob'']
        \<and> map p_year_built (table_rows db') = [Some (Fin 1998)]
        \<and> map p_user_notes (table_rows db') = [None]
        \<and> handleSingleCreate (answering bob_feature) Enhanced db' ''u1''
            (JObj [(''apn'', JStr ''050-183-176''), (''address'', JStr ''123 Main St'')])
            = (Inl (Error (''Database error: ''
                    @ ''A property with this APN already exists in your portfolio'')), db'))"
proof -
  let ?e = "answering bob_feature"
  let ?body = "JObj [(''apn'', JStr ''050-183-176''), (''address'', JStr ''123 Main St'')]"
  let ?dup = "Error (''Database error: ''
                    @ ''A property with this APN already exists in your portfolio'')"
  have parse: "createPropertySchema_parse ?e ?body = Inr ?body"
    by (simp add: createPropertySchema_parse_def optional_string_def regrid_id_transform_def
        get_def)
  obtain rd where look: "lookup_regrid ?e Enhanced ?body = Inr rd"
    and apn: "payload_value (propertyData ?body rd) ''apn'' = JStr ''050-183-176''"
    by (simp add: lookup_regrid_def lookup_eval bob_feature_def normalizer_eval
        answering_fields propertyData_def payload_value_def)
  have healthy: "db_error empty_store = None"
    by (simp add: empty_store_def)
  obtain resp db' where first:
    "handleSingleCreate ?e Enhanced empty_store ''u1'' ?body = (Inr resp, db')"
    and rows: "map p_apn (table_rows db') = [Some ''050-183-176'']"
      "map p_owner (table_rows db') = [Some ''Bob'']"
      "map p_year_built (table_rows db') = [Some (Fin 1998)]"
      "map p_user_notes (table_rows db') = [None]"
    by (simp add: create_eval lookup_eval bob_feature_def normalizer_eval answering_fields
        parse_eval store_eval text_eval)
  have second: "handleSingleCreate ?e Enhanced db' ''u1'' ?body = (Inl ?dup, db')"
    using create_rejects_duplicates [OF parse look apn _ healthy, of "''u1''"] first
    by blast
  have "handleSingleCreate ?e Enhanced empty_store ''u1'' ?body = (Inr resp, db')
        \<and> map p_apn (table_rows db') = [Some ''050-183-176'']
        \<and> map p_owner (table_rows db') = [Some ''Bob'']
        \<and> map p_year_built (table_rows db') = [Some (Fin 1998)]
        \<and> map p_user_notes (table_rows db') = [None]
        \<and> handleSingleCreate ?e Enhanced db' ''u1'' ?body = (Inl ?dup, db')"
    using first rows second by (intro conjI)
  then have run: "\<exists>resp db'.
        handleSingleCreate ?e Enhanced empty_store ''u1'' ?body = (Inr resp, db')
        \<and> map p_apn (table_rows db') = [Some ''050-183-176'']
        \<and> map p_owner (table_rows db') = [Some ''Bob'']
        \<and> map p_year_built (table_rows db') = [Some (Fin 1998)]
        \<and> map p_user_notes (table_rows db') = [None]
        \<and> handleSingleCreate ?e Enhanced db' ''u1'' ?body = (Inl ?dup, db')"
    by (intro exI)
  have "createPropertySchema_parse ?e ?body = Inr ?body
      \<and> lookup_regrid ?e Enhanced ?body = Inr rd
      \<and> payload_value (propertyData ?body rd) ''apn'' = JStr ''050-183-176''"
    using parse look apn by (intro conjI)
  then have inputs: "\<exists>v rd.
      createPropertySchema_parse ?e ?body = Inr v
      \<and> lookup_regrid ?e Enhanced v = Inr rd
      \<and> payload_value (propertyData v rd) ''apn'' = JStr ''050-183-176''"
    by (intro exI)
  have ne: "''050-183-176'' \<noteq> []"
    by simp
  from inputs ne healthy run show ?thesis
    by (intro conjI)
qed

subsection \<open>Bulk create\<close>

lemma createPropertySchema_parse_Inl:
  assumes "createPropertySchema_parse e x = Inl err"
  shows "err = ZodError"
proof -
  have "regrid_id_transform e v \<noteq> Inl err'" if "v = JUndefined \<or> string_or_number v" for v err'
    using that by (cases v) (auto simp add: regrid_id_transform_def string_or_number_def)
  with assms show ?thesis
    by (auto simp add: createPropertySchema_parse_def split: if_splits sum.splits)
qed

lemma parse_each_Inl:
  assumes "\<exists>x \<in> set xs. \<exists>err. createPropertySchema_parse e x = Inl err"
  shows "parse_each e xs = Inl ZodError"
  using assms
proof (induction xs)
  case Nil
  then show ?case by simp
next
  case (Cons x xs)
  show ?case
  proof (cases "createPropertySchema_parse e x")
    case (Inl err)
    then show ?thesis
      using createPropertySchema_parse_Inl [OF Inl] by simp
  next
    case (Inr v)
    with Cons show ?thesis by auto
  qed
qed

lemma parse_each_Inr:
  "parse_each e xs = Inr vs \<Longrightarrow> vs = parsed_inputs e xs \<and> length vs = length xs"
  by (induction xs arbitrary: vs) (auto split: sum.splits)

lemma item_outcomes_length: "length (item_outcomes e rv uid xs db) = length xs"
  by (induction xs arbitrary: db) (simp_all split: prod.splits)

lemma partition_length:
  "length os = length xs \<Longrightarrow> length (created_of os) + length (errors_of i xs os) = length xs"
proof (induction os arbitrary: i xs rule: created_of.induct)
  case 1
  then show ?case by simp
next
  case (2 os)
  then show ?case by (cases xs) auto
next
  case (3 row os)
  then show ?case by (cases xs) auto
next
  case (4 err os)
  then show ?case by (cases xs) auto
qed

lemma bulk_loop_outcomes:
  "\<exists>db'. bulk_loop e rv uid i xs results errors db =
     (results @ created_of (item_outcomes e rv uid xs db),
      errors @ errors_of i xs (item_outcomes e rv uid xs db), db')"
proof (induction xs arbitrary: i results errors db)
  case Nil
  show ?case by simp
next
  case (Cons x xs)
  obtain outcome db1 where step: "createSinglePropertyFromInput e rv db uid x = (outcome, db1)"
    by (cases "createSinglePropertyFromInput e rv db uid x")
  show ?case
  proof (cases outcome)
    case (Inl err)
    from Cons.IH [of "Suc i" results "errors @ [error_entry i x err]" db1]
    show ?thesis by (simp add: step Inl error_entry_def)
  next
    case (Inr property)
    from Cons.IH [of "Suc i" "results @ [created_json property]" errors db1]
    show ?thesis by (cases property) (simp_all add: step Inr created_json_def)
  qed
qed

text \<open>
  Claim C3, as amended. Take a bulk-create body whose \<^verbatim>\<open>properties\<close> is an array of
  inputs. When some input fails the schema, the batch call fails as a whole with the
  validation error and the store is unchanged: no input is attempted. When the body
  passes the schema, the batch call returns a 200 response and never fails as a whole.
  Every input is attempted once, in order, each on the store its predecessor left,
  whatever the outcome of the inputs before it. The response lists under \<^verbatim>\<open>created\<close> the
  rows of the inputs that succeeded and under \<^verbatim>\<open>errors\<close> the inputs that failed, each
  with its index and message, so each input is in exactly one of the two; its summary
  reports the length of the input array as \<^verbatim>\<open>total\<close>, the lengths of the two lists as
  \<^verbatim>\<open>successful\<close> and \<^verbatim>\<open>failed\<close>, and successful + failed = total.
\<close>

theorem bulk_bookkeeping:
  assumes "get body ''properties'' = JArr inputs"
  shows "((\<exists>x \<in> set inputs. \<exists>err. createPropertySchema_parse e x = Inl err) \<longrightarrow>
            handleBulkCreate e rv db uid body = (Inl ZodError, db))
       \<and> (\<forall>items source. bulkCreateSchema_parse e body = Inr (items, source) \<longrightarrow>
            (\<exists>results errors db'.
               handleBulkCreate e rv db uid body =
                 (Inr (200, JObj
                    [(''created'', JArr results),
                     (''errors'', JArr errors),
                     (''summary'', JObj
                        [(''total'', JNum (Fin (of_nat (length inputs)))),
                         (''successful'', JNum (Fin (of_nat (length results)))),
                         (''failed'', JNum (Fin (of_nat (length errors)))),
                         (''source'', source)])]), db')
             \<and> items = parsed_inputs e inputs
             \<and> length items = length inputs
             \<and> length (item_outcomes e rv uid items db) = length inputs
             \<and> results = created_of (item_outcomes e rv uid items db)
             \<and> errors = errors_of 0 items (item_outcomes e rv uid items db)
             \<and> length results + length errors = length inputs))"
proof (intro conjI impI allI)
  assume "\<exists>x \<in> set inputs. \<exists>err. createPropertySchema_parse e x = Inl err"
  then have "parse_each e inputs = Inl ZodError"
    by (rule parse_each_Inl)
  then show "handleBulkCreate e rv db uid body = (Inl ZodError, db)"
    using assms by (simp add: handleBulkCreate_def bulkCreateSchema_parse_def)
next
  fix items source
  assume parse: "bulkCreateSchema_parse e body = Inr (items, source)"
  with assms have "parse_each e inputs = Inr items"
    by (auto simp add: bulkCreateSchema_parse_def split: if_splits sum.splits)
  from parse_each_Inr [OF this] have items: "items = parsed_inputs e inputs"
    and n: "length items = length inputs"
    by blast+
  let ?os = "item_outcomes e rv uid items db"
  obtain db' where loop: "bulk_loop e rv uid 0 items [] [] db =
      (created_of ?os, errors_of 0 items ?os, db')"
    using bulk_loop_outcomes [of e rv uid 0 items "[]" "[]" db] by auto
  have run: "handleBulkCreate e rv db uid body =
      (Inr (200, JObj
         [(''created'', JArr (created_of ?os)),
          (''errors'', JArr (errors_of 0 items ?os)),
          (''summary'', JObj
             [(''total'', JNum (Fin (of_nat (length inputs)))),
              (''successful'', JNum (Fin (of_nat (length (created_of ?os))))),
              (''failed'', JNum (Fin (of_nat (length (errors_of 0 items ?os))))),
              (''source'', source)])]), db')"
    using parse by (simp add: handleBulkCreate_def loop bulk_json_def n)
  have len: "length ?os = length inputs"
    by (simp add: item_outcomes_length n)
  have total: "length (created_of ?os) + length (errors_of 0 items ?os) = length inputs"
    using partition_length [of ?os items 0] by (simp add: item_outcomes_length n)
  from run items n len total
  show "\<exists>results errors db'.
               handleBulkCreate e rv db uid body =
                 (Inr (200, JObj
                    [(''created'', JArr results),
                     (''errors'', JArr errors),
                     (''summary'', JObj
                        [(''total'', JNum (Fin (of_nat (length inputs)))),
                         (''successful'', JNum (Fin (of_nat (length results)))),
                         (''failed'', JNum (Fin (of_nat (length errors)))),
                         (''source'', source)])]), db')
             \<and> items = parsed_inputs e inputs
             \<and> length items = length inputs
             \<and> length (item_outcomes e rv uid items db) = length inputs
             \<and> results = created_of (item_outcomes e rv uid items db)
             \<and> errors = errors_of 0 items (item_outcomes e rv uid items db)
             \<and> length results + length errors = length inputs"
    by blast
qed

lemmas bulk_eval = handleBulkCreate_def bulkCreateSchema_parse_def createSinglePropertyFromInput_def
  createPropertySchema_parse_def optional_string_def string_or_number_def string_array_def
  regrid_id_transform_def propertyData_def empty_store_def error_entry_def created_json_def

text \<open>
  Claim C3 as stated fails. In the body
  \<^verbatim>\<open>{properties: [{apn: "1", address: "Property 1"}, {apn: "2"}]}\<close> the second input lacks
  the address. \<^verbatim>\<open>bulkCreateSchema.parse\<close> validates every input before the loop and
  throws, so the batch call fails as a whole and the first input, which is well
  formed, is never attempted: the store is unchanged.
\<close>

theorem bulk_validation_counterexample:
  "handleBulkCreate ecma Enhanced empty_store ''u1''
     (JObj [(''properties'', JArr
        [JObj [(''apn'', JStr ''1''), (''address'', JStr ''Property 1'')],
         JObj [(''apn'', JStr ''2'')]])])
   = (Inl ZodError, empty_store)"
  by (simp add: handleBulkCreate_def bulkCreateSchema_parse_def createPropertySchema_parse_def
      optional_string_def regrid_id_transform_def get_def)


theorem bulk_bookkeeping_witness:
  "get (JObj [(''properties'', JArr
        [JObj [(''apn'', JStr ''1''), (''address'', JStr ''Property 1'')],
         JObj [(''apn'', JStr ''666''), (''address'', JStr ''Property 666'')],
         JObj [(''apn'', JStr ''3''), (''address'', JStr ''Property 3'')]]),
            (''source'', JStr ''csv'')]) ''properties''
     = JArr [JObj [(''apn'', JStr ''1''), (''address'', JStr ''Property 1'')],
             JObj [(''apn'', JStr ''666''), (''address'', JStr ''Property 666'')],
             JObj [(''apn'', JStr ''3''), (''address'', JStr ''Property 3'')]]
   \<and> bulkCreateSchema_parse ecma
     (JObj [(''properties'', JArr
        [JObj [(''apn'', JStr ''1''), (''address'', JStr ''Property 1'')],
         JObj [(''apn'', JStr ''666''), (''address'', JStr ''Property 666'')],
         JObj [(''apn'', JStr ''3''), (''address'', JStr ''Property 3'')]]),
            (''source'', JStr ''csv'')])
     = Inr ([JObj [(''apn'', JStr ''1''), (''address'', JStr ''Property 1'')],
             JObj [(''apn'', JStr ''666''), (''address'', JStr ''Property 666'')],
             JObj [(''apn'', JStr ''3''), (''address'', JStr ''Property 3'')]], JStr ''csv'')
   \<and> (\<exists>results db'.
         handleBulkCreate ecma Enhanced empty_store ''u1''
           (JObj [(''properties'', JArr
              [JObj [(''apn'', JStr ''1''), (''address'', JStr ''Property 1'')],
               JObj [(''apn'', JStr ''666''), (''address'', JStr ''Property 666'')],
               JObj [(''apn'', JStr ''3''), (''address'', JStr ''Property 3'')]]),
                  (''source'', JStr ''csv'')])
           = (Inr (200, JObj
                [(''created'', JArr results),
                 (''errors'', JArr
                    [JObj [(''index'', JNum (Fin 1)),
                           (''input'', JObj [(''apn'', JStr ''666''),
                                             (''address'', JStr ''Property 666'')]),
                           (''error'', JStr ''check violation'')]]),
                 (''summary'', JObj
                    [(''total'', JNum (Fin 3)),
                     (''successful'', JNum (Fin 2)),
                     (''failed'', JNum (Fin 1)),
                     (''source'', JStr ''csv'')])]), db')
         \<and> map (\<lambda>row. get row ''address'') results = [JStr ''Property 1'', JStr ''Property 3'']
         \<and> map p_address (table_rows db') = [''Property 1'', ''Property 3''])"
proof -
  let ?i1 = "JObj [(''apn'', JStr ''1''), (''address'', JStr ''Property 1'')]"
  let ?i2 = "JObj [(''apn'', JStr ''666''), (''address'', JStr ''Property 666'')]"
  let ?i3 = "JObj [(''apn'', JStr ''3''), (''address'', JStr ''Property 3'')]"
  let ?body = "JObj [(''properties'', JArr [?i1, ?i2, ?i3]), (''source'', JStr ''csv'')]"
  have inputs: "get ?body ''properties'' = JArr [?i1, ?i2, ?i3]"
    by (simp add: get_def)
  have parse: "bulkCreateSchema_parse ecma ?body = Inr ([?i1, ?i2, ?i3], JStr ''csv'')"
    by (simp add: bulkCreateSchema_parse_def createPropertySchema_parse_def optional_string_def
        regrid_id_transform_def get_def)
  define os where "os = item_outcomes ecma Enhanced ''u1'' [?i1, ?i2, ?i3] empty_store"
  obtain results errors db' where
    run: "handleBulkCreate ecma Enhanced empty_store ''u1'' ?body
            = (Inr (200, JObj
                 [(''created'', JArr results),
                  (''errors'', JArr errors),
                  (''summary'', JObj
                     [(''total'', JNum (Fin (of_nat (length [?i1, ?i2, ?i3])))),
                      (''successful'', JNum (Fin (of_nat (length results)))),
                      (''failed'', JNum (Fin (of_nat (length errors)))),
                      (''source'', JStr ''csv'')])]), db')"
    and rs: "results = created_of os"
    and es: "errors = errors_of 0 [?i1, ?i2, ?i3] os"
    unfolding os_def
    using bulk_bookkeeping [OF inputs, of ecma Enhanced empty_store "''u1''"] parse by blast
  have failed: "errors_of 0 [?i1, ?i2, ?i3] os =
      [JObj [(''index'', JNum (Fin 1)), (''input'', ?i2), (''error'', JStr ''check violation'')]]"
    unfolding os_def
    by (simp add: bulk_eval lookup_eval ecma_fields get_def jsor_def opt_def nullish_def Let_def
        store_eval)
  have created: "length (created_of os) = 2"
    "map (\<lambda>row. get row ''address'') (created_of os) = [JStr ''Property 1'', JStr ''Property 3'']"
    unfolding os_def
    by (simp_all add: bulk_eval lookup_eval ecma_fields get_def jsor_def opt_def nullish_def
        Let_def store_eval row_json_def)
  have stored: "map p_address
        (table_rows (snd (handleBulkCreate ecma Enhanced empty_store ''u1'' ?body)))
      = [''Property 1'', ''Property 3'']"
    by (simp add: bulk_eval lookup_eval ecma_fields get_def jsor_def opt_def nullish_def Let_def
        store_eval)
  have c1: "handleBulkCreate ecma Enhanced empty_store ''u1'' ?body
           = (Inr (200, JObj
                [(''created'', JArr results),
                 (''errors'', JArr
                    [JObj [(''index'', JNum (Fin 1)), (''input'', ?i2),
                           (''error'', JStr ''check violation'')]]),
                 (''summary'', JObj
                    [(''total'', JNum (Fin 3)),
                     (''successful'', JNum (Fin 2)),
                     (''failed'', JNum (Fin 1)),
                     (''source'', JStr ''csv'')])]), db')"
    using run by (simp add: es failed rs created(1))
  have c2: "map (\<lambda>row. get row ''address'') results = [JStr ''Property 1'', JStr ''Property 3'']"
    unfolding rs by (rule created(2))
  have c3: "map p_address (table_rows db') = [''Property 1'', ''Property 3'']"
    using stored unfolding run snd_conv .
  have "handleBulkCreate ecma Enhanced empty_store ''u1'' ?body
           = (Inr (200, JObj
                [(''created'', JArr results),
                 (''errors'', JArr
                    [JObj [(''index'', JNum (Fin 1)), (''input'', ?i2),
                           (''error'', JStr ''check violation'')]]),
                 (''summary'', JObj
                    [(''total'', JNum (Fin 3)),
                     (''successful'', JNum (Fin 2)),
                     (''failed'', JNum (Fin 1)),
                     (''source'', JStr ''csv'')])]), db')
         \<and> map (\<lambda>row. get row ''address'') results = [JStr ''Property 1'', JStr ''Property 3'']
         \<and> map p_address (table_rows db') = [''Property 1'', ''Property 3'']"
    using c1 c2 c3 by (intro conjI)
  then have "\<exists>results db'.
         handleBulkCreate ecma Enhanced empty_store ''u1'' ?body
           = (Inr (200, JObj
                [(''created'', JArr results),
                 (''errors'', JArr
                    [JObj [(''index'', JNum (Fin 1)), (''input'', ?i2),
                           (''error'', JStr ''check violation'')]]),
                 (''summary'', JObj
                    [(''total'', JNum (Fin 3)),
                     (''successful'', JNum (Fin 2)),
                     (''failed'', JNum (Fin 1)),
                     (''source'', JStr ''csv'')])]), db')
         \<and> map (\<lambda>row. get row ''address'') results = [JStr ''Property 1'', JStr ''Property 3'']
         \<and> map p_address (table_rows db') = [''Property 1'', ''Property 3'']"
    by (intro exI)
  with inputs parse show ?thesis
    by (intro conjI)
qed

end
